theory Spec2Isabelle
  imports Complex_Main
begin

section \<open>jetstream.py: wind-speed maps of the jet stream\<close>

text \<open>
  A shallow embedding of \<^verbatim>\<open>src/jetstream.py\<close>: the wind-speed computation
  \<^verbatim>\<open>ERAJetStreamData.calc_windspeed\<close> and the driving script under
  \<^verbatim>\<open>if __name__ == '__main__'\<close>.

  Conventions of the model:
  \<^item> numpy's floating-point numbers are the reals: rounding, infinities and NaN are
    not represented, so every statement below is about exact arithmetic;
  \<^item> a numpy array is a list (a 2-D grid a list of rows, the longitude the last axis);
  \<^item> pressure levels are integers (the command line reads \<^verbatim>\<open>--level\<close> with
    \<^verbatim>\<open>type=int\<close>, and the message of the failed lookup formats it with \<^verbatim>\<open>%d\<close>);
  \<^item> a raised exception is the left injection of a sum type;
  \<^item> indices are natural numbers: the script takes them from \<^verbatim>\<open>enumerate\<close>.
\<close>

subsection \<open>Data model\<close>

type_synonym grid = "real list list"

datatype error = ValueError string | IndexError | AttributeError | IOError string

text \<open>
  The variables of the netCDF file that the program reads: \<^verbatim>\<open>level\<close>,
  \<^verbatim>\<open>longitude\<close>, \<^verbatim>\<open>latitude\<close>, \<^verbatim>\<open>time\<close> (with its attributes
  \<^verbatim>\<open>units\<close> and \<^verbatim>\<open>calendar\<close>), and \<^verbatim>\<open>u\<close>, \<^verbatim>\<open>v\<close> indexed by
  time, level, latitude, longitude.
\<close>

record dataset =
  nc_level :: "int list"
  nc_longitude :: "real list"
  nc_latitude :: "real list"
  nc_time :: "real list"
  nc_time_units :: string
  nc_time_calendar :: string
  nc_u :: "grid list list"
  nc_v :: "grid list list"

text \<open>
  An \<^verbatim>\<open>ERAJetStreamData\<close> object: \<^verbatim>\<open>self.data\<close> is set by the constructor;
  \<^verbatim>\<open>self.lon\<close>, \<^verbatim>\<open>self.lat\<close> and \<^verbatim>\<open>self.windspeed\<close> do not exist before the
  first \<^verbatim>\<open>calc_windspeed\<close> (\<open>None\<close>).
\<close>

record ERAJetStreamData =
  data :: dataset
  lon :: "real list option"
  lat :: "real list option"
  windspeed :: "grid option"

definition ERAJetStreamData_init :: "dataset \<Rightarrow> ERAJetStreamData" where
  "ERAJetStreamData_init d = \<lparr>data = d, lon = None, lat = None, windspeed = None\<rparr>"

definition list_levels :: "ERAJetStreamData \<Rightarrow> int list" where
  "list_levels self = nc_level (data self)"

subsection \<open>Formatting integers: \<^verbatim>\<open>%d\<close>\<close>

function string_of_nat :: "nat \<Rightarrow> string" where
  "string_of_nat n =
     (if n < 10 then [''0123456789'' ! n]
      else string_of_nat (n div 10) @ [''0123456789'' ! (n mod 10)])"
  by pat_completeness auto
termination
  by (relation "measure (\<lambda>n. n)") auto

declare string_of_nat.simps [simp del]

definition string_of_int :: "int \<Rightarrow> string" where
  "string_of_int i =
     (if i < 0 then CHR ''-'' # string_of_nat (nat (- i)) else string_of_nat (nat i))"

subsection \<open>The level lookup (lines 104 to 109)\<close>

text \<open>
  \<^verbatim>\<open>
  for levindex, millibars in enumerate(self.data['level']):
      if millibars == level:
          break
  else:
      raise ValueError("No %d hPa level (maybe check with -L?)" % level)
  \<close>
\<close>

definition no_level_message :: "int \<Rightarrow> string" where
  "no_level_message level_arg =
     ''No '' @ string_of_int level_arg @ '' hPa level (maybe check with -L?)''"

fun level_loop :: "nat \<Rightarrow> int list \<Rightarrow> int \<Rightarrow> error + nat" where
  "level_loop levindex [] level_arg = Inl (ValueError (no_level_message level_arg))"
| "level_loop levindex (millibars # rest) level_arg =
     (if millibars = level_arg then Inr levindex
      else level_loop (Suc levindex) rest level_arg)"

definition find_level_index :: "int list \<Rightarrow> int \<Rightarrow> error + nat" where
  "find_level_index levels level_arg = level_loop 0 levels level_arg"

subsection \<open>The sensitivity factor (lines 114 to 119)\<close>

text \<open>
  \<^verbatim>\<open>
  if not sensitivity:
      if level == 250:    # jetstream, big winds
          sensitivity = 3.5
      else:                    # anywhere else, the winds are smaller
          sensitivity = 7.5
  \<close>
  For a number, \<^verbatim>\<open>not sensitivity\<close> holds exactly when it is zero; the parameter's
  default value is 0, so a call that leaves it out passes 0.
\<close>

definition default_sensitivity :: "int \<Rightarrow> real" where
  "default_sensitivity level_arg = (if level_arg = 250 then 3.5 else 7.5)"

definition set_sensitivity :: "int \<Rightarrow> real \<Rightarrow> real" where
  "set_sensitivity level_arg sensitivity =
     (if sensitivity = 0 then default_sensitivity level_arg else sensitivity)"

subsection \<open>The scaled magnitude (lines 121 to 123)\<close>

text \<open>Indexing a list: Python raises \<^verbatim>\<open>IndexError\<close> out of range.\<close>

definition getitem :: "'a list \<Rightarrow> nat \<Rightarrow> error + 'a" where
  "getitem xs i = (if i < length xs then Inr (xs ! i) else Inl IndexError)"

definition select_grid :: "grid list list \<Rightarrow> nat \<Rightarrow> nat \<Rightarrow> error + grid" where
  "select_grid var idx levindex =
     (case getitem var idx of
        Inl e \<Rightarrow> Inl e
      | Inr at_time \<Rightarrow> getitem at_time levindex)"

definition same_shape :: "grid \<Rightarrow> grid \<Rightarrow> bool" where
  "same_shape a b \<longleftrightarrow> map length a = map length b"

text \<open>
  \<^verbatim>\<open>sensitivity * np.sqrt(ug**2 + vg**2)\<close>, cell by cell. The two grids of one file
  have the same shape; numpy's broadcasting of unequal shapes is not modelled, and
  unequal shapes are the error numpy raises when it cannot broadcast.
\<close>

definition magnitude_row :: "real \<Rightarrow> real list \<Rightarrow> real list \<Rightarrow> real list" where
  "magnitude_row sensitivity us vs =
     map (\<lambda>(x, y). sensitivity * sqrt (x\<^sup>2 + y\<^sup>2)) (zip us vs)"

definition windspeed_grid :: "real \<Rightarrow> grid \<Rightarrow> grid \<Rightarrow> error + grid" where
  "windspeed_grid sensitivity ug vg =
     (if same_shape ug vg
      then Inr (map (\<lambda>(us, vs). magnitude_row sensitivity us vs) (zip ug vg))
      else Inl (ValueError ''operands could not be broadcast together''))"

subsection \<open>Shifting the grid (line 129)\<close>

text \<open>
  \<^verbatim>\<open>basemap.shiftgrid\<close> belongs to the mapping library and is not part of the
  repository; the definitions that follow take its meaning from the specification
  of the program. The specification describes the call
  \<^verbatim>\<open>shiftgrid(180, windspeed, lon, start=False)\<close> as cutting the longitude axis at
  the 180 degree meridian and swapping the two halves, the grid's columns with them, so
  that the longitudes read from -180 towards 180.
\<close>

text \<open>
  Modelled from the spec: the cut point of \<^verbatim>\<open>basemap.shiftgrid\<close> (missing from the
  sources), the position on the longitude axis where the meridian \<open>lon0\<close> is reached:
  the number of leading longitudes below \<open>lon0\<close>.
\<close>

definition shift_index :: "real \<Rightarrow> real list \<Rightarrow> nat" where
  "shift_index lon0 lonsin = length (takeWhile (\<lambda>x. x < lon0) lonsin)"

text \<open>
  Modelled from the spec: the reordering of the columns of one row by
  \<^verbatim>\<open>basemap.shiftgrid\<close> (missing from the sources): the row is split at the cut
  and the two halves are swapped.
\<close>

definition rotate_columns :: "nat \<Rightarrow> 'a list \<Rightarrow> 'a list" where
  "rotate_columns i0 row = drop i0 row @ take i0 row"

text \<open>
  Modelled from the spec: \<^verbatim>\<open>basemap.shiftgrid(lon0, datain, lonsin, start=False)\<close>
  (missing from the sources). The longitudes from the cut on are expressed as negative
  (360 is subtracted) and come first, the longitudes before the cut follow unchanged, and
  the columns of every row of the grid are reordered in the same way.
\<close>

definition shiftgrid :: "real \<Rightarrow> grid \<Rightarrow> real list \<Rightarrow> grid \<times> real list" where
  "shiftgrid lon0 datain lonsin =
     (let i0 = shift_index lon0 lonsin
      in (map (rotate_columns i0) datain,
          map (\<lambda>x. x - 360) (drop i0 lonsin) @ take i0 lonsin))"

text \<open>
  Modelled from the spec: the inverse shift "back to [0,360)" of the round-trip
  property, which the program itself never performs. It cuts the re-centred axis where
  the negative values end, adds 360 to them and moves them, and the columns that go with
  them, behind the others.
\<close>

definition unshiftgrid :: "grid \<Rightarrow> real list \<Rightarrow> grid \<times> real list" where
  "unshiftgrid datain lonsin =
     (let k = shift_index 0 lonsin
      in (map (rotate_columns k) datain,
          drop k lonsin @ map (\<lambda>x. x + 360) (take k lonsin)))"

subsection \<open>\<^verbatim>\<open>calc_windspeed\<close> (lines 99 to 131)\<close>

definition calc_windspeed ::
  "ERAJetStreamData \<Rightarrow> nat \<Rightarrow> int \<Rightarrow> real \<Rightarrow> error + ERAJetStreamData" where
  "calc_windspeed self idx level_arg sensitivity =
     (case find_level_index (nc_level (data self)) level_arg of
        Inl e \<Rightarrow> Inl e
      | Inr levindex \<Rightarrow>
          let lon0 = nc_longitude (data self);
              lat0 = nc_latitude (data self);
              sens = set_sensitivity level_arg sensitivity
          in (case select_grid (nc_u (data self)) idx levindex of
                Inl e \<Rightarrow> Inl e
              | Inr ug \<Rightarrow>
                 (case select_grid (nc_v (data self)) idx levindex of
                    Inl e \<Rightarrow> Inl e
                  | Inr vg \<Rightarrow>
                     (case windspeed_grid sens ug vg of
                        Inl e \<Rightarrow> Inl e
                      | Inr ws \<Rightarrow>
                          let (ws', lon') = shiftgrid 180 ws lon0
                          in Inr (self\<lparr>lon := Some lon', lat := Some lat0,
                                       windspeed := Some ws'\<rparr>)))))"

text \<open>The call that leaves the sensitivity out: the parameter's default is 0.\<close>

definition calc_windspeed_default ::
  "ERAJetStreamData \<Rightarrow> nat \<Rightarrow> int \<Rightarrow> error + ERAJetStreamData" where
  "calc_windspeed_default self idx level_arg = calc_windspeed self idx level_arg 0"

subsection \<open>Rendering: \<^verbatim>\<open>JetStreamMap\<close> and \<^verbatim>\<open>create_map\<close> (lines 46 to 89)\<close>

text \<open>
  The figure itself is drawn by matplotlib and basemap. The model keeps what
  \<^verbatim>\<open>render\<close> hands to them: the corners of the map, the mesh (longitudes, latitudes,
  wind speeds), the colour range and the title.
\<close>

record figure =
  fig_llcrnrlon :: real
  fig_urcrnrlon :: real
  fig_llcrnrlat :: real
  fig_urcrnrlat :: real
  fig_lon :: "real list"
  fig_lat :: "real list"
  fig_windspeed :: grid
  fig_vmin :: real
  fig_vmax :: real
  fig_title :: string

record JetStreamMap =
  lon1 :: real
  lon2 :: real
  lat1 :: real
  lat2 :: real
  fig :: "figure option"

definition JetStreamMap_init :: "real \<Rightarrow> real \<Rightarrow> real \<Rightarrow> real \<Rightarrow> JetStreamMap" where
  "JetStreamMap_init west east south north =
     \<lparr>lon1 = west, lon2 = east, lat1 = south, lat2 = north, fig = None\<rparr>"

text \<open>
  \<^verbatim>\<open>render(self, data, vmin=80, vmax=220, title=None)\<close>: reading \<^verbatim>\<open>data.lon\<close>,
  \<^verbatim>\<open>data.lat\<close> or \<^verbatim>\<open>data.windspeed\<close> before \<^verbatim>\<open>calc_windspeed\<close> has set them
  raises \<^verbatim>\<open>AttributeError\<close>.
\<close>

definition render :: "JetStreamMap \<Rightarrow> ERAJetStreamData \<Rightarrow> string \<Rightarrow> error + JetStreamMap" where
  "render self js title =
     (case (lon js, lat js, windspeed js) of
        (Some lo, Some la, Some ws) \<Rightarrow>
          Inr (self\<lparr>fig := Some \<lparr>fig_llcrnrlon = lon1 self, fig_urcrnrlon = lon2 self,
                                  fig_llcrnrlat = lat1 self, fig_urcrnrlat = lat2 self,
                                  fig_lon = lo, fig_lat = la, fig_windspeed = ws,
                                  fig_vmin = 80, fig_vmax = 220, fig_title = title\<rparr>\<rparr>)
      | _ \<Rightarrow> Inl AttributeError)"

definition create_map ::
  "ERAJetStreamData \<Rightarrow> int \<Rightarrow> string \<Rightarrow> real \<Rightarrow> real \<Rightarrow> real \<Rightarrow> real \<Rightarrow> error + JetStreamMap" where
  "create_map self level_arg timestr west east south north =
     (let title = (if level_arg = 250 then ''Jet Stream '' @ timestr
                   else ''Winds '' @ string_of_int level_arg @ '' mb '' @ timestr)
      in render (JetStreamMap_init west east south north) self title)"

subsection \<open>The script (lines 166 to 200)\<close>

text \<open>The parsed command line, as \<^verbatim>\<open>parse_args\<close> declares it.\<close>

record args =
  threshold :: real
  area :: string
  level :: int
  outdir :: string
  dpi :: int
  listlevels :: bool
  datafile :: string

text \<open>
  What the script takes from outside the repository:
  \<^item> \<open>to_float\<close>: Python's \<^verbatim>\<open>float(l.strip())\<close>, \<open>None\<close> where it raises
    \<^verbatim>\<open>ValueError\<close>;
  \<^item> \<open>open_dataset\<close>: \<^verbatim>\<open>netCDF4.Dataset(filename)\<close>, which fails on a missing or
    malformed file;
  \<^item> \<open>date_string\<close>: \<^verbatim>\<open>netCDF4.num2date(t, units, calendar).strftime("%Y-%m-%d")\<close>.
\<close>

record env =
  to_float :: "string \<Rightarrow> real option"
  open_dataset :: "string \<Rightarrow> error + dataset"
  date_string :: "string \<Rightarrow> string \<Rightarrow> real \<Rightarrow> string"

text \<open>
  The file system as far as the script asks about it: what kind of node a path names.
  \<^verbatim>\<open>os.mkdir\<close> is taken to succeed on a path that does not exist.
\<close>

datatype node = File | Dir

type_synonym filesystem = "string \<rightharpoonup> node"

text \<open>What the script does to its surroundings, in order.\<close>

datatype event = Print string | Mkdir string | SaveFig string int figure

text \<open>
  How the process ends: \<^verbatim>\<open>sys.exit(n)\<close>, falling off the end of the script
  (\<open>Exit 0\<close>), or an exception nobody catches, which Python reports with status 1.
\<close>

datatype outcome = Exit int | Uncaught error

fun exit_code :: "outcome \<Rightarrow> int" where
  "exit_code (Exit n) = n"
| "exit_code (Uncaught e) = 1"

text \<open>\<^verbatim>\<open>str.split(',')\<close>: the pieces between the separators, at least one.\<close>

fun split_on :: "char \<Rightarrow> string \<Rightarrow> string list" where
  "split_on c [] = [[]]"
| "split_on c (x # xs) =
     (let r = split_on c xs
      in if x = c then [] # r else (x # hd r) # tl r)"

text \<open>
  \<^verbatim>\<open>west, east, south, north = (float(l.strip()) for l in args.area.split(','))\<close>:
  unpacking draws four values from the generator and then asks for a fifth, so up to
  five pieces are converted; a piece that is no number raises, as does a wrong count.
  The messages of these errors differ between versions of Python (the later ones add the
  counts and the offending piece); the model abbreviates them.
\<close>

definition unpack_area :: "(string \<Rightarrow> real option) \<Rightarrow> string list
    \<Rightarrow> error + (real \<times> real \<times> real \<times> real)" where
  "unpack_area conv pieces =
     (let rs = map conv (take 5 pieces)
      in if None \<in> set rs then Inl (ValueError ''could not convert string to float'')
         else (case rs of
                 [Some w, Some e, Some s, Some n] \<Rightarrow> Inr (w, e, s, n)
               | _ \<Rightarrow> if length rs < 4
                      then Inl (ValueError ''not enough values to unpack'')
                      else Inl (ValueError ''too many values to unpack'')))"

definition figname_of :: "string \<Rightarrow> string \<Rightarrow> int \<Rightarrow> string" where
  "figname_of out timestr level_arg =
     out @ ''/'' @ timestr @ ''-'' @ string_of_int level_arg @ ''.png''"

text \<open>
  The loop over the time axis (lines 189 to 200). An exception leaves the loop and the
  script; \<^verbatim>\<open>plt.close()\<close> has no effect that the model records.
\<close>

fun time_loop :: "env \<Rightarrow> args \<Rightarrow> real \<times> real \<times> real \<times> real \<Rightarrow> ERAJetStreamData
    \<Rightarrow> (nat \<times> real) list \<Rightarrow> event list \<times> outcome" where
  "time_loop ev a box JSdata [] = ([], Exit 0)"
| "time_loop ev a box JSdata ((i, t) # rest) =
     (let timestr = date_string ev (nc_time_units (data JSdata))
                      (nc_time_calendar (data JSdata)) t
      in case calc_windspeed_default JSdata i (level a) of
           Inl e \<Rightarrow> ([], Uncaught e)
         | Inr JSdata' \<Rightarrow>
            (case box of (west, east, south, north) \<Rightarrow>
              (case create_map JSdata' (level a) timestr west east south north of
                 Inl e \<Rightarrow> ([], Uncaught e)
               | Inr mymap \<Rightarrow>
                  (case fig mymap of
                     None \<Rightarrow> ([], Uncaught AttributeError)
                   | Some f \<Rightarrow>
                      let figname = figname_of (outdir a) timestr (level a);
                          (evs, out) = time_loop ev a box JSdata' rest
                      in (SaveFig figname (dpi a) f # Print figname # evs, out)))))"

record run =
  events :: "event list"
  files :: filesystem
  ending :: outcome

text \<open>Lines 187 to 200, after the output directory has been dealt with.\<close>

definition process_times ::
  "env \<Rightarrow> args \<Rightarrow> real \<times> real \<times> real \<times> real \<Rightarrow> ERAJetStreamData
     \<Rightarrow> event list \<Rightarrow> filesystem \<Rightarrow> run" where
  "process_times ev a box JSdata pre fs =
     (let (evs, out) = time_loop ev a box JSdata (enumerate 0 (nc_time (data JSdata)))
      in \<lparr>events = pre @ evs, files = fs, ending = out\<rparr>)"

definition main :: "env \<Rightarrow> args \<Rightarrow> filesystem \<Rightarrow> run" where
  "main ev a fs =
     (case unpack_area (to_float ev) (split_on CHR '','' (area a)) of
        Inl e \<Rightarrow> \<lparr>events = [], files = fs, ending = Uncaught e\<rparr>
      | Inr box \<Rightarrow>
         (case open_dataset ev (datafile a) of
            Inl e \<Rightarrow> \<lparr>events = [], files = fs, ending = Uncaught e\<rparr>
          | Inr d \<Rightarrow>
             let JSdata = ERAJetStreamData_init d
             in if listlevels a
                then \<lparr>events = Print (''Levels available in dataset '' @ datafile a @ '':'')
                                 # map (\<lambda>l. Print (''    '' @ string_of_int l))
                                       (list_levels JSdata),
                      files = fs, ending = Exit 0\<rparr>
                else if fs (outdir a) = None
                then process_times ev a box JSdata [Mkdir (outdir a)] (fs(outdir a \<mapsto> Dir))
                else if fs (outdir a) \<noteq> Some Dir
                then \<lparr>events = [Print (''Can't create dir '' @ outdir a
                                         @ '': there's a file by that name'')],
                      files = fs, ending = Exit 1\<rparr>
                else process_times ev a box JSdata [] fs))"

subsection \<open>Well-formed datasets\<close>

text \<open>
  The shape of the file's variables: \<^verbatim>\<open>u\<close> and \<^verbatim>\<open>v\<close> have one entry per time,
  each of these one grid per level, and each grid one row per latitude with one cell per
  longitude.
\<close>

definition grid_shape :: "nat \<Rightarrow> nat \<Rightarrow> grid \<Rightarrow> bool" where
  "grid_shape nlat nlon g \<longleftrightarrow> length g = nlat \<and> (\<forall>row \<in> set g. length row = nlon)"

definition field_shape :: "dataset \<Rightarrow> grid list list \<Rightarrow> bool" where
  "field_shape d var \<longleftrightarrow>
     length var = length (nc_time d) \<and>
     (\<forall>at_time \<in> set var.
        length at_time = length (nc_level d) \<and>
        (\<forall>g \<in> set at_time.
           grid_shape (length (nc_latitude d)) (length (nc_longitude d)) g))"

definition wf_dataset :: "dataset \<Rightarrow> bool" where
  "wf_dataset d \<longleftrightarrow> field_shape d (nc_u d) \<and> field_shape d (nc_v d)"

text \<open>The longitude axis of the data model: increasing, within [0, 360).\<close>

definition longitude_axis :: "real list \<Rightarrow> bool" where
  "longitude_axis lons \<longleftrightarrow> sorted_wrt (<) lons \<and> (\<forall>x \<in> set lons. 0 \<le> x \<and> x < 360)"

text \<open>
  The column of the source grid that ends up in column \<open>j\<close> of the shifted grid, and
  the longitude it is given there.
\<close>

definition source_column :: "real list \<Rightarrow> nat \<Rightarrow> nat" where
  "source_column lons j = (j + shift_index 180 lons) mod length lons"

definition recentre :: "real \<Rightarrow> real" where
  "recentre x = (if 180 \<le> x then x - 360 else x)"

subsection \<open>Vocabulary for the script's trace\<close>

text \<open>
  The date string of a time step (lines 187 to 191), and what the loop does at a time
  step for which it drew the figure \<open>f\<close> (lines 197 to 199): the figure is saved under
  the file name built from the output directory, the date and the level, and then the
  file name is printed.
\<close>

definition timestr_of :: "env \<Rightarrow> dataset \<Rightarrow> real \<Rightarrow> string" where
  "timestr_of ev d t = date_string ev (nc_time_units d) (nc_time_calendar d) t"

definition timestep_events :: "env \<Rightarrow> args \<Rightarrow> dataset \<Rightarrow> real \<Rightarrow> figure \<Rightarrow> event list" where
  "timestep_events ev a d t f =
     [SaveFig (outdir a @ ''/'' @ timestr_of ev d t @ ''-'' @ string_of_int (level a) @ ''.png'')
        (dpi a) f,
      Print (outdir a @ ''/'' @ timestr_of ev d t @ ''-'' @ string_of_int (level a) @ ''.png'')]"

subsection \<open>Sample inputs\<close>

text \<open>
  Two time steps, three levels, one latitude and four longitudes; the wind is calm at
  1000 hPa, and at 850 hPa but for one cell of the first time step.
\<close>

definition sample_dataset :: dataset where
  "sample_dataset =
     \<lparr>nc_level = [1000, 850, 250],
      nc_longitude = [0, 90, 180, 270],
      nc_latitude = [45],
      nc_time = [1000008, 1000032],
      nc_time_units = ''hours since 1900-01-01 00:00:0.0'',
      nc_time_calendar = ''gregorian'',
      nc_u = [[[[0, 0, 0, 0]], [[0, 8, 0, 0]], [[3, 0, 6, 0]]],
              [[[0, 0, 0, 0]], [[0, 0, 0, 0]], [[5, 0, 0, 0]]]],
      nc_v = [[[[0, 0, 0, 0]], [[0, 6, 0, 0]], [[4, 0, 8, 0]]],
              [[[0, 0, 0, 0]], [[0, 0, 0, 0]], [[12, 0, 0, 0]]]]\<rparr>"

definition sample_data :: ERAJetStreamData where
  "sample_data = ERAJetStreamData_init sample_dataset"

text \<open>
  A command line \<^verbatim>\<open>jetstream.py -o maps era.nc\<close> with the defaults of the other
  options, and surroundings in which \<^verbatim>\<open>era.nc\<close> is the sample dataset.
\<close>

definition sample_args :: args where
  "sample_args =
     \<lparr>threshold = 0, area = ''-180,180,-70,74'', level = 250, outdir = ''maps'',
      dpi = 100, listlevels = False, datafile = ''era.nc''\<rparr>"

definition sample_env :: env where
  "sample_env =
     \<lparr>to_float = (\<lambda>s. if s = ''-180'' then Some (- 180) else if s = ''180'' then Some 180
                        else if s = ''-70'' then Some (- 70) else if s = ''74'' then Some 74
                        else None),
      open_dataset = (\<lambda>f. if f = ''era.nc'' then Inr sample_dataset
                            else Inl (IOError ''No such file or directory'')),
      date_string = (\<lambda>units calendar t. if t = 1000008 then ''2014-01-30''
                                         else ''2014-01-31'')\<rparr>"

section \<open>Properties\<close>

subsection \<open>The level lookup\<close>

lemma level_loop_absent:
  "target \<notin> set levels \<Longrightarrow>
     level_loop k levels target = Inl (ValueError (no_level_message target))"
  by (induction levels arbitrary: k) auto

lemma level_loop_present:
  "target \<in> set levels \<Longrightarrow>
     \<exists>i<length levels. level_loop k levels target = Inr (k + i) \<and> levels ! i = target
        \<and> (\<forall>j<i. levels ! j \<noteq> target)"
proof (induction levels arbitrary: k)
  case Nil
  then show ?case by simp
next
  case (Cons millibars rest)
  show ?case
  proof (cases "millibars = target")
    case True
    then show ?thesis by (intro exI [of _ 0]) simp
  next
    case False
    with Cons.prems have "target \<in> set rest" by simp
    from Cons.IH [OF this, of "Suc k"] obtain i where
      i: "i < length rest" "level_loop (Suc k) rest target = Inr (Suc k + i)"
         "rest ! i = target" "\<forall>j<i. rest ! j \<noteq> target" by blast
    show ?thesis
    proof (intro exI [of _ "Suc i"] conjI allI impI)
      fix j assume "j < Suc i"
      then show "(millibars # rest) ! j \<noteq> target"
        using False i(4) by (cases j) auto
    qed (use False i in auto)
  qed
qed

lemma find_level_index_present:
  assumes "target \<in> set levels"
  obtains i where "i < length levels" "find_level_index levels target = Inr i"
    "levels ! i = target" "\<forall>j<i. levels ! j \<noteq> target"
  using level_loop_present [OF assms, of 0] by (auto simp: find_level_index_def)

lemma single_occurrence:
  "count_list xs t = 1 \<Longrightarrow> i < length xs \<Longrightarrow> j < length xs \<Longrightarrow> xs ! i = t \<Longrightarrow> xs ! j = t
     \<Longrightarrow> i = j"
proof (induction xs arbitrary: i j)
  case Nil
  then show ?case by simp
next
  case (Cons x xs)
  show ?case
  proof (cases "x = t")
    case True
    with Cons.prems(1) have "t \<notin> set xs" by (simp add: count_list_0_iff)
    then have "\<And>k. k < length xs \<Longrightarrow> xs ! k \<noteq> t" by auto
    with Cons.prems show ?thesis by (cases i; cases j) auto
  next
    case False
    with Cons.prems obtain i' j' where "i = Suc i'" "j = Suc j'"
      by (cases i; cases j) auto
    with Cons.prems False Cons.IH [of i' j'] show ?thesis by simp
  qed
qed

text \<open>
  C2, as the code has it: when the target is among the levels the lookup returns an index
  that holds it, the only such index when the target occurs once; when the target is
  absent the lookup raises the error whose message names the requested level and points
  to the option \<^verbatim>\<open>-L\<close> that lists the levels.
\<close>

theorem find_level_index_result:
  "(target \<in> set levels \<longrightarrow>
      (\<exists>i<length levels. find_level_index levels target = Inr i \<and> levels ! i = target
          \<and> (count_list levels target = 1 \<longrightarrow>
                (\<forall>j<length levels. levels ! j = target \<longrightarrow> j = i))))
   \<and> (target \<notin> set levels \<longrightarrow>
        find_level_index levels target
          = Inl (ValueError (''No '' @ string_of_int target
                               @ '' hPa level (maybe check with -L?)'')))"
proof (intro conjI impI)
  assume "target \<in> set levels"
  then obtain i where
    i: "i < length levels" "find_level_index levels target = Inr i" "levels ! i = target"
    by (rule find_level_index_present)
  have "j = i" if "count_list levels target = 1" "j < length levels" "levels ! j = target" for j
    using that(1,2) i(1) that(3) i(3) by (rule single_occurrence)
  with i show "\<exists>i<length levels. find_level_index levels target = Inr i \<and> levels ! i = target
          \<and> (count_list levels target = 1 \<longrightarrow>
                (\<forall>j<length levels. levels ! j = target \<longrightarrow> j = i))"
    by blast
next
  assume "target \<notin> set levels"
  then show "find_level_index levels target
          = Inl (ValueError (''No '' @ string_of_int target
                               @ '' hPa level (maybe check with -L?)''))"
    by (simp add: find_level_index_def level_loop_absent no_level_message_def)
qed

theorem find_level_index_result_witness:
  "(250::int) \<in> set [1000, 850, 250] \<and> count_list [1000, 850, 250::int] 250 = 1
   \<and> find_level_index [1000, 850, 250] 250 = Inr 2
   \<and> (500::int) \<notin> set [1000, 850, 250]
   \<and> find_level_index [1000, 850, 250] 500
       = Inl (ValueError ''No 500 hPa level (maybe check with -L?)'')"
  using find_level_index_result [of 250 "[1000, 850, 250]"]
        find_level_index_result [of 500 "[1000, 850, 250]"]
  by (simp add: string_of_int_def string_of_nat.simps find_level_index_def)

text \<open>
  The statement of C2 as written fails when a level is repeated: the lookup returns
  position 0 of \<open>[250, 250]\<close>, and position 1 holds the target as well, so the index
  returned is not the only one.
\<close>

theorem find_level_index_duplicate_counterexample:
  "find_level_index [250, 250] 250 = Inr 0 \<and> [250, 250 :: int] ! 1 = 250
   \<and> (1::nat) < length [250, 250 :: int] \<and> (1::nat) \<noteq> 0"
  by (simp add: find_level_index_def)

text \<open>
  C9: a target that occurs on the level axis, once or several times, is found at its first
  position: the index returned holds the target and no smaller index does.
\<close>

theorem find_level_index_first_occurrence:
  "target \<in> set levels \<Longrightarrow>
     \<exists>i<length levels. find_level_index levels target = Inr i \<and> levels ! i = target
        \<and> (\<forall>j<i. levels ! j \<noteq> target)"
  using level_loop_present [of target levels 0] by (simp add: find_level_index_def)

theorem find_level_index_first_occurrence_witness:
  "(250::int) \<in> set [1000, 250, 850, 250]
   \<and> (\<exists>i<length [1000, 250, 850, 250 :: int].
         find_level_index [1000, 250, 850, 250] 250 = Inr i
         \<and> [1000, 250, 850, 250 :: int] ! i = 250
         \<and> (\<forall>j<i. [1000, 250, 850, 250 :: int] ! j \<noteq> 250))
   \<and> find_level_index [1000, 250, 850, 250] 250 = Inr 1"
proof -
  have h: "(250::int) \<in> set [1000, 250, 850, 250]" by simp
  have r: "find_level_index [1000, 250, 850, 250] 250 = Inr 1"
    by (simp add: find_level_index_def)
  from h find_level_index_first_occurrence [OF h] r show ?thesis by blast
qed

subsection \<open>The sensitivity factor\<close>

lemma set_sensitivity_idem:
  "set_sensitivity level_arg (set_sensitivity level_arg s) = set_sensitivity level_arg s"
  by (simp add: set_sensitivity_def default_sensitivity_def)

subsection \<open>The wind-speed grid\<close>

lemma select_grid_wf:
  assumes "field_shape d var" "idx < length (nc_time d)" "levindex < length (nc_level d)"
  shows "select_grid var idx levindex = Inr (var ! idx ! levindex)"
    and "grid_shape (length (nc_latitude d)) (length (nc_longitude d)) (var ! idx ! levindex)"
proof -
  from assms have i: "idx < length var" and m: "var ! idx \<in> set var"
    by (auto simp: field_shape_def)
  with assms have l: "levindex < length (var ! idx)" by (auto simp: field_shape_def)
  then have "var ! idx ! levindex \<in> set (var ! idx)" by simp
  with m assms(1) show "grid_shape (length (nc_latitude d)) (length (nc_longitude d)) (var ! idx ! levindex)"
    unfolding field_shape_def by blast
  show "select_grid var idx levindex = Inr (var ! idx ! levindex)"
    using i l by (simp add: select_grid_def getitem_def)
qed

lemma grid_shape_same:
  "grid_shape m n a \<Longrightarrow> grid_shape m n b \<Longrightarrow> same_shape a b"
  unfolding grid_shape_def same_shape_def
  by (auto intro!: nth_equalityI)

lemma magnitude_row_nth:
  "j < length us \<Longrightarrow> j < length vs \<Longrightarrow>
     magnitude_row s us vs ! j = s * sqrt ((us ! j)\<^sup>2 + (vs ! j)\<^sup>2)"
  by (simp add: magnitude_row_def)

lemma length_magnitude_row:
  "length (magnitude_row s us vs) = min (length us) (length vs)"
  by (simp add: magnitude_row_def)

lemma rotate_columns_nth:
  assumes "i0 \<le> length row" "j < length row"
  shows "rotate_columns i0 row ! j = row ! ((j + i0) mod length row)"
proof (cases "j < length row - i0")
  case True
  then have "(j + i0) mod length row = i0 + j" by simp
  with True show ?thesis by (simp add: rotate_columns_def nth_append add.commute)
next
  case False
  then have ge: "length row \<le> j + i0" and lt: "j + i0 - length row < length row"
    using assms by auto
  have "(j + i0) mod length row = (j + i0 - length row) mod length row"
    using ge by (rule le_mod_geq)
  with lt have "(j + i0) mod length row = j + i0 - length row" by simp
  moreover have "j - (length row - i0) = j + i0 - length row" using False assms by simp
  ultimately show ?thesis using False assms by (simp add: rotate_columns_def nth_append)
qed

lemma length_rotate_columns: "length (rotate_columns i0 row) = length row"
  by (auto simp: rotate_columns_def)

lemma shift_index_le: "shift_index lon0 lons \<le> length lons"
  by (simp add: shift_index_def length_takeWhile_le)

lemma source_column_less: "j < length lons \<Longrightarrow> source_column lons j < length lons"
  by (cases "length lons = 0") (simp_all add: source_column_def)

lemma calc_windspeed_success:
  assumes wf: "wf_dataset (data self)"
    and idx: "idx < length (nc_time (data self))"
    and fl: "find_level_index (nc_level (data self)) level_arg = Inr levindex"
    and li: "levindex < length (nc_level (data self))"
    and W: "W = map (\<lambda>(us, vs). magnitude_row (set_sensitivity level_arg sensitivity) us vs)
                  (zip (nc_u (data self) ! idx ! levindex) (nc_v (data self) ! idx ! levindex))"
  shows "calc_windspeed self idx level_arg sensitivity
           = Inr (self\<lparr>lon := Some (snd (shiftgrid 180 W (nc_longitude (data self)))),
                       lat := Some (nc_latitude (data self)),
                       windspeed := Some (fst (shiftgrid 180 W (nc_longitude (data self))))\<rparr>)"
proof -
  from wf have fu: "field_shape (data self) (nc_u (data self))"
    and fv: "field_shape (data self) (nc_v (data self))"
    by (simp_all add: wf_dataset_def)
  note su = select_grid_wf [OF fu idx li] and sv = select_grid_wf [OF fv idx li]
  have "same_shape (nc_u (data self) ! idx ! levindex) (nc_v (data self) ! idx ! levindex)"
    using su(2) sv(2) by (rule grid_shape_same)
  then have "windspeed_grid (set_sensitivity level_arg sensitivity)
               (nc_u (data self) ! idx ! levindex) (nc_v (data self) ! idx ! levindex) = Inr W"
    by (simp add: windspeed_grid_def W)
  then show ?thesis
    by (simp add: calc_windspeed_def fl su(1) sv(1) split_beta Let_def)
qed

lemma shifted_row:
  assumes ug: "grid_shape m (length lons) ug" and vg: "grid_shape m (length lons) vg"
    and i: "i < m"
  shows "fst (shiftgrid 180 (map (\<lambda>(us, vs). magnitude_row s us vs) (zip ug vg)) lons) ! i
           = rotate_columns (shift_index 180 lons) (magnitude_row s (ug ! i) (vg ! i))"
    and "length (magnitude_row s (ug ! i) (vg ! i)) = length lons"
    and "length (ug ! i) = length lons" and "length (vg ! i) = length lons"
proof -
  from ug vg i have lu: "length ug = m" and lv: "length vg = m"
    and ru: "length (ug ! i) = length lons" and rv: "length (vg ! i) = length lons"
    by (auto simp: grid_shape_def)
  show "length (magnitude_row s (ug ! i) (vg ! i)) = length lons"
    by (simp add: length_magnitude_row ru rv)
  show "fst (shiftgrid 180 (map (\<lambda>(us, vs). magnitude_row s us vs) (zip ug vg)) lons) ! i
           = rotate_columns (shift_index 180 lons) (magnitude_row s (ug ! i) (vg ! i))"
    using i lu lv by (simp add: shiftgrid_def Let_def)
  show "length (ug ! i) = length lons" "length (vg ! i) = length lons" by (rule ru, rule rv)
qed

lemma shifted_cell:
  assumes ug: "grid_shape m (length lons) ug" and vg: "grid_shape m (length lons) vg"
    and i: "i < m" and j: "j < length lons"
  shows "fst (shiftgrid 180 (map (\<lambda>(us, vs). magnitude_row s us vs) (zip ug vg)) lons) ! i ! j
           = s * sqrt ((ug ! i ! source_column lons j)\<^sup>2 + (vg ! i ! source_column lons j)\<^sup>2)"
proof -
  note r = shifted_row [OF ug vg i]
  have sc: "source_column lons j < length lons" using j by (rule source_column_less)
  have "rotate_columns (shift_index 180 lons) (magnitude_row s (ug ! i) (vg ! i)) ! j
          = magnitude_row s (ug ! i) (vg ! i) ! source_column lons j"
    using rotate_columns_nth [of "shift_index 180 lons" "magnitude_row s (ug ! i) (vg ! i)" j]
      j shift_index_le [of 180 lons]
    by (simp add: r(2) source_column_def)
  also have "\<dots> = s * sqrt ((ug ! i ! source_column lons j)\<^sup>2 + (vg ! i ! source_column lons j)\<^sup>2)"
    using sc by (simp add: magnitude_row_nth r(3,4))
  finally show ?thesis by (simp add: r(1))
qed

lemma calc_windspeed_cells:
  assumes wf: "wf_dataset (data self)"
    and idx: "idx < length (nc_time (data self))"
    and lev: "level_arg \<in> set (nc_level (data self))"
  shows "\<exists>levindex self' ws.
           find_level_index (nc_level (data self)) level_arg = Inr levindex
         \<and> calc_windspeed self idx level_arg sensitivity = Inr self'
         \<and> windspeed self' = Some ws
         \<and> length ws = length (nc_latitude (data self))
         \<and> (\<forall>i<length (nc_latitude (data self)).
               length (ws ! i) = length (nc_longitude (data self))
             \<and> (\<forall>j<length (nc_longitude (data self)).
                   ws ! i ! j = set_sensitivity level_arg sensitivity
                     * sqrt ((nc_u (data self) ! idx ! levindex ! i
                                ! source_column (nc_longitude (data self)) j)\<^sup>2
                           + (nc_v (data self) ! idx ! levindex ! i
                                ! source_column (nc_longitude (data self)) j)\<^sup>2)))"
proof -
  from lev obtain levindex where li: "levindex < length (nc_level (data self))"
    and fl: "find_level_index (nc_level (data self)) level_arg = Inr levindex"
    by (rule find_level_index_present)
  define W where "W = map (\<lambda>(us, vs). magnitude_row (set_sensitivity level_arg sensitivity) us vs)
                  (zip (nc_u (data self) ! idx ! levindex) (nc_v (data self) ! idx ! levindex))"
  note c = calc_windspeed_success [OF wf idx fl li W_def]
  from wf have fu: "field_shape (data self) (nc_u (data self))"
    and fv: "field_shape (data self) (nc_v (data self))"
    by (simp_all add: wf_dataset_def)
  note gu = select_grid_wf(2) [OF fu idx li] and gv = select_grid_wf(2) [OF fv idx li]
  have len: "length (fst (shiftgrid 180 W (nc_longitude (data self))))
               = length (nc_latitude (data self))"
    using gu gv by (simp add: shiftgrid_def W_def grid_shape_def Let_def)
  have rows: "length (fst (shiftgrid 180 W (nc_longitude (data self))) ! i)
                = length (nc_longitude (data self))"
    if "i < length (nc_latitude (data self))" for i
    unfolding W_def using shifted_row [OF gu gv that]
    by (simp add: length_rotate_columns)
  have cells: "fst (shiftgrid 180 W (nc_longitude (data self))) ! i ! j
      = set_sensitivity level_arg sensitivity
          * sqrt ((nc_u (data self) ! idx ! levindex ! i
                     ! source_column (nc_longitude (data self)) j)\<^sup>2
                + (nc_v (data self) ! idx ! levindex ! i
                     ! source_column (nc_longitude (data self)) j)\<^sup>2)"
    if "i < length (nc_latitude (data self))" "j < length (nc_longitude (data self))" for i j
    unfolding W_def by (rule shifted_cell [OF gu gv that])
  show ?thesis
    apply (intro exI conjI)
        apply (rule fl)
       apply (rule c)
      apply simp
     apply (rule len)
    using rows cells apply blast
    done
qed

lemma calc_windspeed_frame:
  assumes "calc_windspeed self idx level_arg sensitivity = Inr self'"
  shows "data self' = data self" and "lat self' = Some (nc_latitude (data self))"
  using assms
  by (auto simp: calc_windspeed_def Let_def split: sum.splits prod.splits)

text \<open>
  C1: on a well-formed dataset, for a valid time index, a level of the level axis and a
  positive sensitivity, \<^verbatim>\<open>calc_windspeed\<close> succeeds. The level index it uses is
  the first position of the level axis that holds the requested level, and the grid it
  stores has the shape of the input grids at that time and level index, every cell being
  the sensitivity times the Euclidean norm of the two wind components of the
  corresponding input cell (the one in the same row and in the column that the longitude
  shift moved there), hence not negative.
\<close>

theorem calc_windspeed_magnitude:
  assumes wf: "wf_dataset (data self)"
    and idx: "idx < length (nc_time (data self))"
    and lev: "level_arg \<in> set (nc_level (data self))"
    and pos: "0 < sensitivity"
  shows "\<exists>levindex self' ws.
           levindex < length (nc_level (data self))
         \<and> nc_level (data self) ! levindex = level_arg
         \<and> (\<forall>k<levindex. nc_level (data self) ! k \<noteq> level_arg)
         \<and> find_level_index (nc_level (data self)) level_arg = Inr levindex
         \<and> calc_windspeed self idx level_arg sensitivity = Inr self'
         \<and> windspeed self' = Some ws
         \<and> length ws = length (nc_latitude (data self))
         \<and> (\<forall>i<length (nc_latitude (data self)).
               length (ws ! i) = length (nc_longitude (data self))
             \<and> (\<forall>j<length (nc_longitude (data self)).
                   ws ! i ! j = sensitivity
                     * sqrt ((nc_u (data self) ! idx ! levindex ! i
                                ! source_column (nc_longitude (data self)) j)\<^sup>2
                           + (nc_v (data self) ! idx ! levindex ! i
                                ! source_column (nc_longitude (data self)) j)\<^sup>2)
                 \<and> 0 \<le> ws ! i ! j))"
proof -
  from pos have s: "set_sensitivity level_arg sensitivity = sensitivity"
    by (simp add: set_sensitivity_def)
  from lev obtain l0 where l0: "l0 < length (nc_level (data self))"
    "find_level_index (nc_level (data self)) level_arg = Inr l0"
    "nc_level (data self) ! l0 = level_arg"
    "\<forall>k<l0. nc_level (data self) ! k \<noteq> level_arg"
    by (rule find_level_index_present)
  from calc_windspeed_cells [OF wf idx lev, of sensitivity] obtain levindex self' ws where
    r: "find_level_index (nc_level (data self)) level_arg = Inr levindex"
       "calc_windspeed self idx level_arg sensitivity = Inr self'"
       "windspeed self' = Some ws"
       "length ws = length (nc_latitude (data self))"
       "\<forall>i<length (nc_latitude (data self)).
               length (ws ! i) = length (nc_longitude (data self))
             \<and> (\<forall>j<length (nc_longitude (data self)).
                   ws ! i ! j = sensitivity
                     * sqrt ((nc_u (data self) ! idx ! levindex ! i
                                ! source_column (nc_longitude (data self)) j)\<^sup>2
                           + (nc_v (data self) ! idx ! levindex ! i
                                ! source_column (nc_longitude (data self)) j)\<^sup>2))"
    unfolding s by blast
  from r(1) l0(2) have eq: "levindex = l0" by simp
  have nonneg: "0 \<le> ws ! i ! j"
    if "i < length (nc_latitude (data self))" "j < length (nc_longitude (data self))" for i j
    using r(5) that pos by simp
  show ?thesis
  proof (intro exI conjI)
    show "levindex < length (nc_level (data self))" using l0(1) eq by simp
    show "nc_level (data self) ! levindex = level_arg" using l0(3) eq by simp
    show "\<forall>k<levindex. nc_level (data self) ! k \<noteq> level_arg" using l0(4) eq by simp
    show "find_level_index (nc_level (data self)) level_arg = Inr levindex" by (rule r(1))
    show "calc_windspeed self idx level_arg sensitivity = Inr self'" by (rule r(2))
    show "windspeed self' = Some ws" by (rule r(3))
    show "length ws = length (nc_latitude (data self))" by (rule r(4))
    show "\<forall>i<length (nc_latitude (data self)).
               length (ws ! i) = length (nc_longitude (data self))
             \<and> (\<forall>j<length (nc_longitude (data self)).
                   ws ! i ! j = sensitivity
                     * sqrt ((nc_u (data self) ! idx ! levindex ! i
                                ! source_column (nc_longitude (data self)) j)\<^sup>2
                           + (nc_v (data self) ! idx ! levindex ! i
                                ! source_column (nc_longitude (data self)) j)\<^sup>2)
                 \<and> 0 \<le> ws ! i ! j)"
      using r(5) nonneg by blast
  qed
qed

lemma sample_wf: "wf_dataset (data sample_data)"
  by (simp add: sample_data_def sample_dataset_def ERAJetStreamData_init_def wf_dataset_def
      field_shape_def grid_shape_def)

lemma sqrt_25: "sqrt 25 = 5" by (rule real_sqrt_unique) simp_all
lemma sqrt_100: "sqrt 100 = 10" by (rule real_sqrt_unique) simp_all
lemma sqrt_169: "sqrt 169 = 13" by (rule real_sqrt_unique) simp_all

lemma sample_run:
  "calc_windspeed sample_data 0 250 1
     = Inr (sample_data\<lparr>lon := Some [-180, -90, 0, 90], lat := Some [45],
                         windspeed := Some [[10, 0, 5, 0]]\<rparr>)"
  by (simp add: calc_windspeed_def sample_data_def sample_dataset_def ERAJetStreamData_init_def
      find_level_index_def set_sensitivity_def select_grid_def getitem_def windspeed_grid_def
      same_shape_def magnitude_row_def shiftgrid_def shift_index_def rotate_columns_def
      sqrt_25 sqrt_100)

lemma sample_idx0: "(0::nat) < length (nc_time (data sample_data))"
  by (simp add: sample_data_def sample_dataset_def ERAJetStreamData_init_def)

lemma sample_levels: "nc_level (data sample_data) = [1000, 850, 250]"
  by (simp add: sample_data_def sample_dataset_def ERAJetStreamData_init_def)

theorem calc_windspeed_magnitude_witness:
  "wf_dataset (data sample_data) \<and> (0::nat) < length (nc_time (data sample_data))
   \<and> 250 \<in> set (nc_level (data sample_data)) \<and> (0::real) < 1
   \<and> (\<exists>levindex self' ws.
           levindex < length (nc_level (data sample_data))
         \<and> nc_level (data sample_data) ! levindex = 250
         \<and> (\<forall>k<levindex. nc_level (data sample_data) ! k \<noteq> 250)
         \<and> find_level_index (nc_level (data sample_data)) 250 = Inr levindex
         \<and> calc_windspeed sample_data 0 250 1 = Inr self'
         \<and> windspeed self' = Some ws
         \<and> length ws = length (nc_latitude (data sample_data))
         \<and> (\<forall>i<length (nc_latitude (data sample_data)).
               length (ws ! i) = length (nc_longitude (data sample_data))
             \<and> (\<forall>j<length (nc_longitude (data sample_data)).
                   ws ! i ! j = 1
                     * sqrt ((nc_u (data sample_data) ! 0 ! levindex ! i
                                ! source_column (nc_longitude (data sample_data)) j)\<^sup>2
                           + (nc_v (data sample_data) ! 0 ! levindex ! i
                                ! source_column (nc_longitude (data sample_data)) j)\<^sup>2)
                 \<and> 0 \<le> ws ! i ! j)))
   \<and> find_level_index (nc_level (data sample_data)) 250 = Inr 2
   \<and> nc_u (data sample_data) ! 0 ! 2 = [[3, 0, 6, 0]]
   \<and> nc_v (data sample_data) ! 0 ! 2 = [[4, 0, 8, 0]]
   \<and> calc_windspeed sample_data 0 250 1
       = Inr (sample_data\<lparr>lon := Some [-180, -90, 0, 90], lat := Some [45],
                           windspeed := Some [[10, 0, 5, 0]]\<rparr>)"
proof -
  have h3: "250 \<in> set (nc_level (data sample_data))" by (simp add: sample_levels)
  have h4: "(0::real) < 1" by simp
  have f: "find_level_index (nc_level (data sample_data)) 250 = Inr 2"
    by (simp add: sample_levels find_level_index_def)
  have u: "nc_u (data sample_data) ! 0 ! 2 = [[3, 0, 6, 0]]"
    and v: "nc_v (data sample_data) ! 0 ! 2 = [[4, 0, 8, 0]]"
    by (simp_all add: sample_data_def sample_dataset_def ERAJetStreamData_init_def)
  note t = calc_windspeed_magnitude [OF sample_wf sample_idx0 h3 h4]
  show ?thesis
    apply (intro conjI)
            apply (rule sample_wf)
           apply (rule sample_idx0)
          apply (rule h3)
         apply (rule h4)
        apply (rule t)
       apply (rule f)
      apply (rule u)
     apply (rule v)
    apply (rule sample_run)
    done
qed

subsection \<open>The default sensitivity\<close>

text \<open>
  C3: the default factor is 3.5 at level 250 and 7.5 at every other level; it replaces
  the caller's factor exactly when that is 0, which is also what a call without the
  argument passes; a nonzero factor is kept. So \<^verbatim>\<open>calc_windspeed\<close> with the
  factor left out gives the result of the call with the default factor of the level, at
  level 250 the result of the call with 3.5. On a well-formed dataset, for a valid time
  index and a level of the axis, this shows in the grids that are stored: without the
  argument every cell is 3.5 (at level 250) or 7.5 (elsewhere) times the magnitude of the
  input cell at the requested level, and with the argument \<open>s\<close> it is that default
  times the magnitude when \<open>s\<close> is 0 and \<open>s\<close> times the magnitude otherwise.
\<close>

theorem default_sensitivity_applied:
  "default_sensitivity 250 = 3.5
   \<and> (level_arg \<noteq> 250 \<longrightarrow> default_sensitivity level_arg = 7.5)
   \<and> set_sensitivity level_arg 0 = default_sensitivity level_arg
   \<and> (s \<noteq> 0 \<longrightarrow> set_sensitivity level_arg s = s)
   \<and> calc_windspeed self idx level_arg s
       = calc_windspeed self idx level_arg (set_sensitivity level_arg s)
   \<and> calc_windspeed_default self idx level_arg
       = calc_windspeed self idx level_arg (default_sensitivity level_arg)
   \<and> calc_windspeed_default self idx 250 = calc_windspeed self idx 250 3.5
   \<and> (wf_dataset (data self) \<and> idx < length (nc_time (data self))
        \<and> level_arg \<in> set (nc_level (data self)) \<longrightarrow>
       (\<exists>levindex self' self'' ws ws'.
           levindex < length (nc_level (data self))
         \<and> nc_level (data self) ! levindex = level_arg
         \<and> (\<forall>k<levindex. nc_level (data self) ! k \<noteq> level_arg)
         \<and> calc_windspeed_default self idx level_arg = Inr self'
         \<and> windspeed self' = Some ws
         \<and> calc_windspeed self idx level_arg s = Inr self''
         \<and> windspeed self'' = Some ws'
         \<and> length ws = length (nc_latitude (data self))
         \<and> length ws' = length (nc_latitude (data self))
         \<and> (\<forall>i<length (nc_latitude (data self)).
               length (ws ! i) = length (nc_longitude (data self))
             \<and> length (ws' ! i) = length (nc_longitude (data self))
             \<and> (\<forall>j<length (nc_longitude (data self)).
                   ws ! i ! j = (if level_arg = 250 then 3.5 else 7.5)
                     * sqrt ((nc_u (data self) ! idx ! levindex ! i
                                ! source_column (nc_longitude (data self)) j)\<^sup>2
                           + (nc_v (data self) ! idx ! levindex ! i
                                ! source_column (nc_longitude (data self)) j)\<^sup>2)
                 \<and> ws' ! i ! j = (if s = 0 then (if level_arg = 250 then 3.5 else 7.5) else s)
                     * sqrt ((nc_u (data self) ! idx ! levindex ! i
                                ! source_column (nc_longitude (data self)) j)\<^sup>2
                           + (nc_v (data self) ! idx ! levindex ! i
                                ! source_column (nc_longitude (data self)) j)\<^sup>2)))))"
proof -
  have a: "calc_windspeed self idx level_arg s
       = calc_windspeed self idx level_arg (set_sensitivity level_arg s)"
    by (simp add: calc_windspeed_def set_sensitivity_idem cong: sum.case_cong)
  have b: "calc_windspeed_default self idx l = calc_windspeed self idx l (default_sensitivity l)"
    for l
    by (simp add: calc_windspeed_default_def calc_windspeed_def set_sensitivity_def
        default_sensitivity_def cong: sum.case_cong)
  have c: "default_sensitivity 250 = 3.5" by (simp add: default_sensitivity_def)
  have first: "default_sensitivity 250 = 3.5
   \<and> (level_arg \<noteq> 250 \<longrightarrow> default_sensitivity level_arg = 7.5)
   \<and> set_sensitivity level_arg 0 = default_sensitivity level_arg
   \<and> (s \<noteq> 0 \<longrightarrow> set_sensitivity level_arg s = s)"
    by (simp add: set_sensitivity_def default_sensitivity_def)
  have b250: "calc_windspeed_default self idx 250 = calc_windspeed self idx 250 3.5"
    using b [of 250] c by simp
  have cells: "\<exists>levindex self' self'' ws ws'.
           levindex < length (nc_level (data self))
         \<and> nc_level (data self) ! levindex = level_arg
         \<and> (\<forall>k<levindex. nc_level (data self) ! k \<noteq> level_arg)
         \<and> calc_windspeed_default self idx level_arg = Inr self'
         \<and> windspeed self' = Some ws
         \<and> calc_windspeed self idx level_arg s = Inr self''
         \<and> windspeed self'' = Some ws'
         \<and> length ws = length (nc_latitude (data self))
         \<and> length ws' = length (nc_latitude (data self))
         \<and> (\<forall>i<length (nc_latitude (data self)).
               length (ws ! i) = length (nc_longitude (data self))
             \<and> length (ws' ! i) = length (nc_longitude (data self))
             \<and> (\<forall>j<length (nc_longitude (data self)).
                   ws ! i ! j = (if level_arg = 250 then 3.5 else 7.5)
                     * sqrt ((nc_u (data self) ! idx ! levindex ! i
                                ! source_column (nc_longitude (data self)) j)\<^sup>2
                           + (nc_v (data self) ! idx ! levindex ! i
                                ! source_column (nc_longitude (data self)) j)\<^sup>2)
                 \<and> ws' ! i ! j = (if s = 0 then (if level_arg = 250 then 3.5 else 7.5) else s)
                     * sqrt ((nc_u (data self) ! idx ! levindex ! i
                                ! source_column (nc_longitude (data self)) j)\<^sup>2
                           + (nc_v (data self) ! idx ! levindex ! i
                                ! source_column (nc_longitude (data self)) j)\<^sup>2)))"
    if wf: "wf_dataset (data self)" and idx: "idx < length (nc_time (data self))"
      and lev: "level_arg \<in> set (nc_level (data self))"
  proof -
    let ?u = "\<lambda>l i j. nc_u (data self) ! idx ! l ! i ! source_column (nc_longitude (data self)) j"
    let ?v = "\<lambda>l i j. nc_v (data self) ! idx ! l ! i ! source_column (nc_longitude (data self)) j"
    have s0: "set_sensitivity level_arg 0 = (if level_arg = 250 then 3.5 else 7.5)"
      by (simp add: set_sensitivity_def default_sensitivity_def)
    have ss: "set_sensitivity level_arg s
                = (if s = 0 then (if level_arg = 250 then 3.5 else 7.5) else s)"
      by (simp add: set_sensitivity_def default_sensitivity_def)
    from lev obtain l0 where l0: "l0 < length (nc_level (data self))"
      "find_level_index (nc_level (data self)) level_arg = Inr l0"
      "nc_level (data self) ! l0 = level_arg"
      "\<forall>k<l0. nc_level (data self) ! k \<noteq> level_arg"
      by (rule find_level_index_present)
    from calc_windspeed_cells [OF wf idx lev, of 0] obtain l1 self' ws where
      r: "find_level_index (nc_level (data self)) level_arg = Inr l1"
         "calc_windspeed self idx level_arg 0 = Inr self'"
         "windspeed self' = Some ws"
         "length ws = length (nc_latitude (data self))"
         "\<forall>i<length (nc_latitude (data self)).
               length (ws ! i) = length (nc_longitude (data self))
             \<and> (\<forall>j<length (nc_longitude (data self)).
                   ws ! i ! j = (if level_arg = 250 then 3.5 else 7.5)
                     * sqrt ((?u l1 i j)\<^sup>2 + (?v l1 i j)\<^sup>2))"
      unfolding s0 by blast
    from calc_windspeed_cells [OF wf idx lev, of s] obtain l2 self'' ws' where
      q: "find_level_index (nc_level (data self)) level_arg = Inr l2"
         "calc_windspeed self idx level_arg s = Inr self''"
         "windspeed self'' = Some ws'"
         "length ws' = length (nc_latitude (data self))"
         "\<forall>i<length (nc_latitude (data self)).
               length (ws' ! i) = length (nc_longitude (data self))
             \<and> (\<forall>j<length (nc_longitude (data self)).
                   ws' ! i ! j = (if s = 0 then (if level_arg = 250 then 3.5 else 7.5) else s)
                     * sqrt ((?u l2 i j)\<^sup>2 + (?v l2 i j)\<^sup>2))"
      unfolding ss by blast
    from r(1) l0(2) have e1: "l1 = l0" by simp
    from q(1) l0(2) have e2: "l2 = l0" by simp
    show ?thesis
    proof (intro exI conjI allI impI)
      show "l0 < length (nc_level (data self))" by (rule l0(1))
      show "nc_level (data self) ! l0 = level_arg" by (rule l0(3))
      show "calc_windspeed_default self idx level_arg = Inr self'"
        using r(2) by (simp add: calc_windspeed_default_def)
      show "windspeed self' = Some ws" by (rule r(3))
      show "calc_windspeed self idx level_arg s = Inr self''" by (rule q(2))
      show "windspeed self'' = Some ws'" by (rule q(3))
      show "length ws = length (nc_latitude (data self))" by (rule r(4))
      show "length ws' = length (nc_latitude (data self))" by (rule q(4))
    next
      fix k assume "k < l0"
      with l0(4) show "nc_level (data self) ! k \<noteq> level_arg" by simp
    next
      fix i assume i: "i < length (nc_latitude (data self))"
      show "length (ws ! i) = length (nc_longitude (data self))" using r(5) i by blast
      show "length (ws' ! i) = length (nc_longitude (data self))" using q(5) i by blast
      fix j assume j: "j < length (nc_longitude (data self))"
      show "ws ! i ! j = (if level_arg = 250 then 3.5 else 7.5)
                     * sqrt ((?u l0 i j)\<^sup>2 + (?v l0 i j)\<^sup>2)"
        using r(5) i j unfolding e1 by blast
      show "ws' ! i ! j = (if s = 0 then (if level_arg = 250 then 3.5 else 7.5) else s)
                     * sqrt ((?u l0 i j)\<^sup>2 + (?v l0 i j)\<^sup>2)"
        using q(5) i j unfolding e2 by blast
    qed
  qed
  show ?thesis
    apply (intro conjI)
           apply (rule first [THEN conjunct1])
          apply (rule first [THEN conjunct2, THEN conjunct1])
         apply (rule first [THEN conjunct2, THEN conjunct2, THEN conjunct1])
        apply (rule first [THEN conjunct2, THEN conjunct2, THEN conjunct2])
       apply (rule a)
      apply (rule b)
     apply (rule b250)
    apply (intro impI)
    apply (elim conjE)
    apply (rule cells)
      apply assumption+
    done
qed

lemma sample_run_default_250:
  "calc_windspeed_default sample_data 0 250
     = Inr (sample_data\<lparr>lon := Some [-180, -90, 0, 90], lat := Some [45],
                         windspeed := Some [[35, 0, 17.5, 0]]\<rparr>)"
  by (simp add: calc_windspeed_default_def calc_windspeed_def sample_data_def sample_dataset_def
      ERAJetStreamData_init_def find_level_index_def set_sensitivity_def default_sensitivity_def
      select_grid_def getitem_def windspeed_grid_def same_shape_def magnitude_row_def
      shiftgrid_def shift_index_def rotate_columns_def sqrt_25 sqrt_100)

lemma sample_run_explicit_250:
  "calc_windspeed sample_data 0 250 3.5
     = Inr (sample_data\<lparr>lon := Some [-180, -90, 0, 90], lat := Some [45],
                         windspeed := Some [[35, 0, 17.5, 0]]\<rparr>)"
  by (simp add: calc_windspeed_def sample_data_def sample_dataset_def
      ERAJetStreamData_init_def find_level_index_def set_sensitivity_def default_sensitivity_def
      select_grid_def getitem_def windspeed_grid_def same_shape_def magnitude_row_def
      shiftgrid_def shift_index_def rotate_columns_def sqrt_25 sqrt_100)

lemma sample_run_default_850:
  "calc_windspeed_default sample_data 0 850
     = Inr (sample_data\<lparr>lon := Some [-180, -90, 0, 90], lat := Some [45],
                         windspeed := Some [[0, 0, 0, 75]]\<rparr>)"
  by (simp add: calc_windspeed_default_def calc_windspeed_def sample_data_def sample_dataset_def
      ERAJetStreamData_init_def find_level_index_def set_sensitivity_def default_sensitivity_def
      select_grid_def getitem_def windspeed_grid_def same_shape_def magnitude_row_def
      shiftgrid_def shift_index_def rotate_columns_def sqrt_25 sqrt_100)

lemma sample_run_explicit_850:
  "calc_windspeed sample_data 0 850 2
     = Inr (sample_data\<lparr>lon := Some [-180, -90, 0, 90], lat := Some [45],
                         windspeed := Some [[0, 0, 0, 20]]\<rparr>)"
  by (simp add: calc_windspeed_def sample_data_def sample_dataset_def
      ERAJetStreamData_init_def find_level_index_def set_sensitivity_def default_sensitivity_def
      select_grid_def getitem_def windspeed_grid_def same_shape_def magnitude_row_def
      shiftgrid_def shift_index_def rotate_columns_def sqrt_25 sqrt_100)

theorem default_sensitivity_applied_witness:
  "(850::int) \<noteq> 250 \<and> (2::real) \<noteq> 0
   \<and> wf_dataset (data sample_data) \<and> (0::nat) < length (nc_time (data sample_data))
   \<and> 850 \<in> set (nc_level (data sample_data))
   \<and> default_sensitivity 850 = 7.5 \<and> set_sensitivity 850 2 = 2
   \<and> (\<exists>levindex self' self'' ws ws'.
           levindex < length (nc_level (data sample_data))
         \<and> nc_level (data sample_data) ! levindex = 850
         \<and> (\<forall>k<levindex. nc_level (data sample_data) ! k \<noteq> 850)
         \<and> calc_windspeed_default sample_data 0 850 = Inr self'
         \<and> windspeed self' = Some ws
         \<and> calc_windspeed sample_data 0 850 2 = Inr self''
         \<and> windspeed self'' = Some ws'
         \<and> length ws = length (nc_latitude (data sample_data))
         \<and> length ws' = length (nc_latitude (data sample_data))
         \<and> (\<forall>i<length (nc_latitude (data sample_data)).
               length (ws ! i) = length (nc_longitude (data sample_data))
             \<and> length (ws' ! i) = length (nc_longitude (data sample_data))
             \<and> (\<forall>j<length (nc_longitude (data sample_data)).
                   ws ! i ! j = (if (850::int) = 250 then 3.5 else 7.5)
                     * sqrt ((nc_u (data sample_data) ! 0 ! levindex ! i
                                ! source_column (nc_longitude (data sample_data)) j)\<^sup>2
                           + (nc_v (data sample_data) ! 0 ! levindex ! i
                                ! source_column (nc_longitude (data sample_data)) j)\<^sup>2)
                 \<and> ws' ! i ! j
                     = (if (2::real) = 0 then (if (850::int) = 250 then 3.5 else 7.5) else 2)
                     * sqrt ((nc_u (data sample_data) ! 0 ! levindex ! i
                                ! source_column (nc_longitude (data sample_data)) j)\<^sup>2
                           + (nc_v (data sample_data) ! 0 ! levindex ! i
                                ! source_column (nc_longitude (data sample_data)) j)\<^sup>2))))
   \<and> nc_u (data sample_data) ! 0 ! 1 = [[0, 8, 0, 0]]
   \<and> nc_v (data sample_data) ! 0 ! 1 = [[0, 6, 0, 0]]
   \<and> calc_windspeed_default sample_data 0 850
       = Inr (sample_data\<lparr>lon := Some [-180, -90, 0, 90], lat := Some [45],
                           windspeed := Some [[0, 0, 0, 75]]\<rparr>)
   \<and> calc_windspeed sample_data 0 850 2
       = Inr (sample_data\<lparr>lon := Some [-180, -90, 0, 90], lat := Some [45],
                           windspeed := Some [[0, 0, 0, 20]]\<rparr>)
   \<and> calc_windspeed_default sample_data 0 250
       = Inr (sample_data\<lparr>lon := Some [-180, -90, 0, 90], lat := Some [45],
                           windspeed := Some [[35, 0, 17.5, 0]]\<rparr>)
   \<and> calc_windspeed sample_data 0 250 3.5
       = Inr (sample_data\<lparr>lon := Some [-180, -90, 0, 90], lat := Some [45],
                           windspeed := Some [[35, 0, 17.5, 0]]\<rparr>)"
proof -
  have h1: "(850::int) \<noteq> 250" by simp
  have h2: "(2::real) \<noteq> 0" by simp
  have h3: "850 \<in> set (nc_level (data sample_data))" by (simp add: sample_levels)
  have u: "nc_u (data sample_data) ! 0 ! 1 = [[0, 8, 0, 0]]"
    and v: "nc_v (data sample_data) ! 0 ! 1 = [[0, 6, 0, 0]]"
    by (simp_all add: sample_data_def sample_dataset_def ERAJetStreamData_init_def)
  note t = default_sensitivity_applied [of 850 2 sample_data 0]
  note t2 = t [THEN conjunct2, THEN conjunct1, THEN mp, OF h1]
  note t4 = t [THEN conjunct2, THEN conjunct2, THEN conjunct2, THEN conjunct1, THEN mp, OF h2]
  note t8 = t [THEN conjunct2, THEN conjunct2, THEN conjunct2, THEN conjunct2, THEN conjunct2,
      THEN conjunct2, THEN conjunct2, THEN mp, OF conjI [OF sample_wf conjI [OF sample_idx0 h3]]]
  show ?thesis
    apply (intro conjI)
                 apply (rule h1)
                apply (rule h2)
               apply (rule sample_wf)
              apply (rule sample_idx0)
             apply (rule h3)
            apply (rule t2)
           apply (rule t4)
          apply (rule t8)
         apply (rule u)
        apply (rule v)
       apply (rule sample_run_default_850)
      apply (rule sample_run_explicit_850)
     apply (rule sample_run_default_250)
    apply (rule sample_run_explicit_250)
    done
qed

subsection \<open>Sensitivities of either sign\<close>

text \<open>
  C10, as the code has it: a nonzero sensitivity, negative ones included, is the scale
  factor of every cell, unchanged. With a negative sensitivity every cell is at most
  zero, and below zero exactly where the wind of the input cell is not calm.
\<close>

theorem calc_windspeed_any_sign:
  assumes wf: "wf_dataset (data self)"
    and idx: "idx < length (nc_time (data self))"
    and lev: "level_arg \<in> set (nc_level (data self))"
    and nz: "sensitivity \<noteq> 0"
  shows "\<exists>levindex self' ws.
           find_level_index (nc_level (data self)) level_arg = Inr levindex
         \<and> calc_windspeed self idx level_arg sensitivity = Inr self'
         \<and> windspeed self' = Some ws
         \<and> length ws = length (nc_latitude (data self))
         \<and> (\<forall>i<length (nc_latitude (data self)).
               length (ws ! i) = length (nc_longitude (data self))
             \<and> (\<forall>j<length (nc_longitude (data self)).
                   ws ! i ! j = sensitivity
                     * sqrt ((nc_u (data self) ! idx ! levindex ! i
                                ! source_column (nc_longitude (data self)) j)\<^sup>2
                           + (nc_v (data self) ! idx ! levindex ! i
                                ! source_column (nc_longitude (data self)) j)\<^sup>2)
                 \<and> (sensitivity < 0 \<longrightarrow>
                       ws ! i ! j \<le> 0
                     \<and> (ws ! i ! j < 0 \<longleftrightarrow>
                          nc_u (data self) ! idx ! levindex ! i
                            ! source_column (nc_longitude (data self)) j \<noteq> 0
                        \<or> nc_v (data self) ! idx ! levindex ! i
                            ! source_column (nc_longitude (data self)) j \<noteq> 0))))"
proof -
  from nz have s: "set_sensitivity level_arg sensitivity = sensitivity"
    by (simp add: set_sensitivity_def)
  from calc_windspeed_cells [OF wf idx lev, of sensitivity] obtain levindex self' ws where
    r: "find_level_index (nc_level (data self)) level_arg = Inr levindex"
       "calc_windspeed self idx level_arg sensitivity = Inr self'"
       "windspeed self' = Some ws"
       "length ws = length (nc_latitude (data self))"
       "\<forall>i<length (nc_latitude (data self)).
               length (ws ! i) = length (nc_longitude (data self))
             \<and> (\<forall>j<length (nc_longitude (data self)).
                   ws ! i ! j = sensitivity
                     * sqrt ((nc_u (data self) ! idx ! levindex ! i
                                ! source_column (nc_longitude (data self)) j)\<^sup>2
                           + (nc_v (data self) ! idx ! levindex ! i
                                ! source_column (nc_longitude (data self)) j)\<^sup>2))"
    unfolding s by blast
  have sign: "s * sqrt (x\<^sup>2 + y\<^sup>2) \<le> 0 \<and> (s * sqrt (x\<^sup>2 + y\<^sup>2) < 0 \<longleftrightarrow> x \<noteq> 0 \<or> y \<noteq> 0)"
    if "s < 0" for s x y :: real
  proof -
    have "0 \<le> sqrt (x\<^sup>2 + y\<^sup>2)" by simp
    moreover have "0 < sqrt (x\<^sup>2 + y\<^sup>2) \<longleftrightarrow> x \<noteq> 0 \<or> y \<noteq> 0"
      by (simp add: sum_power2_gt_zero_iff)
    ultimately show ?thesis using that
      by (simp add: mult_le_0_iff mult_less_0_iff)
  qed
  let ?u = "\<lambda>i j. nc_u (data self) ! idx ! levindex ! i
                    ! source_column (nc_longitude (data self)) j"
  let ?v = "\<lambda>i j. nc_v (data self) ! idx ! levindex ! i
                    ! source_column (nc_longitude (data self)) j"
  have cell: "ws ! i ! j = sensitivity * sqrt ((?u i j)\<^sup>2 + (?v i j)\<^sup>2)"
    if "i < length (nc_latitude (data self))" "j < length (nc_longitude (data self))" for i j
    using r(5) that by blast
  have row: "length (ws ! i) = length (nc_longitude (data self))"
    if "i < length (nc_latitude (data self))" for i
    using r(5) that by blast
  show ?thesis
  proof (intro exI conjI allI impI)
    show "find_level_index (nc_level (data self)) level_arg = Inr levindex" by (rule r(1))
    show "calc_windspeed self idx level_arg sensitivity = Inr self'" by (rule r(2))
    show "windspeed self' = Some ws" by (rule r(3))
    show "length ws = length (nc_latitude (data self))" by (rule r(4))
  next
    fix i assume "i < length (nc_latitude (data self))"
    then show "length (ws ! i) = length (nc_longitude (data self))" by (rule row)
  next
    fix i j assume ij: "i < length (nc_latitude (data self))" "j < length (nc_longitude (data self))"
    show "ws ! i ! j = sensitivity * sqrt ((?u i j)\<^sup>2 + (?v i j)\<^sup>2)"
      using ij by (rule cell)
    assume neg: "sensitivity < 0"
    show "ws ! i ! j \<le> 0" using sign [OF neg, of "?u i j" "?v i j"] cell [OF ij] by simp
    show "ws ! i ! j < 0 \<longleftrightarrow> ?u i j \<noteq> 0 \<or> ?v i j \<noteq> 0"
      using sign [OF neg, of "?u i j" "?v i j"] cell [OF ij] by simp
  qed
qed

theorem calc_windspeed_any_sign_witness:
  "wf_dataset (data sample_data) \<and> (0::nat) < length (nc_time (data sample_data))
   \<and> 250 \<in> set (nc_level (data sample_data)) \<and> (- 2 :: real) \<noteq> 0 \<and> (- 2 :: real) < 0
   \<and> (\<exists>levindex self' ws.
           find_level_index (nc_level (data sample_data)) 250 = Inr levindex
         \<and> calc_windspeed sample_data 0 250 (- 2) = Inr self'
         \<and> windspeed self' = Some ws
         \<and> length ws = length (nc_latitude (data sample_data))
         \<and> (\<forall>i<length (nc_latitude (data sample_data)).
               length (ws ! i) = length (nc_longitude (data sample_data))
             \<and> (\<forall>j<length (nc_longitude (data sample_data)).
                   ws ! i ! j = - 2
                     * sqrt ((nc_u (data sample_data) ! 0 ! levindex ! i
                                ! source_column (nc_longitude (data sample_data)) j)\<^sup>2
                           + (nc_v (data sample_data) ! 0 ! levindex ! i
                                ! source_column (nc_longitude (data sample_data)) j)\<^sup>2)
                 \<and> (- 2 < (0::real) \<longrightarrow>
                       ws ! i ! j \<le> 0
                     \<and> (ws ! i ! j < 0 \<longleftrightarrow>
                          nc_u (data sample_data) ! 0 ! levindex ! i
                            ! source_column (nc_longitude (data sample_data)) j \<noteq> 0
                        \<or> nc_v (data sample_data) ! 0 ! levindex ! i
                            ! source_column (nc_longitude (data sample_data)) j \<noteq> 0)))))
   \<and> calc_windspeed sample_data 0 250 (- 2)
       = Inr (sample_data\<lparr>lon := Some [-180, -90, 0, 90], lat := Some [45],
                           windspeed := Some [[-20, 0, -10, 0]]\<rparr>)"
proof -
  have h3: "250 \<in> set (nc_level (data sample_data))" by (simp add: sample_levels)
  have h4: "(- 2 :: real) \<noteq> 0" by simp
  have h5: "(- 2 :: real) < 0" by simp
  have run: "calc_windspeed sample_data 0 250 (- 2)
       = Inr (sample_data\<lparr>lon := Some [-180, -90, 0, 90], lat := Some [45],
                           windspeed := Some [[-20, 0, -10, 0]]\<rparr>)"
    by (simp add: calc_windspeed_def sample_data_def sample_dataset_def ERAJetStreamData_init_def
      find_level_index_def set_sensitivity_def select_grid_def getitem_def windspeed_grid_def
      same_shape_def magnitude_row_def shiftgrid_def shift_index_def rotate_columns_def
      sqrt_25 sqrt_100)
  from calc_windspeed_any_sign [OF sample_wf sample_idx0 h3 h4] sample_wf sample_idx0 h3 h4 h5 run
  show ?thesis by blast
qed

text \<open>
  The statement of C10 as written fails where the wind is calm: at 1000 hPa the sample
  dataset has no wind, and the sensitivity -1 gives a grid of zeros, which is neither
  negative in every cell nor a grid that has lost its non-negativity.
\<close>

theorem calc_windspeed_negative_counterexample:
  "calc_windspeed sample_data 0 1000 (- 1)
     = Inr (sample_data\<lparr>lon := Some [-180, -90, 0, 90], lat := Some [45],
                         windspeed := Some [[0, 0, 0, 0]]\<rparr>)
   \<and> \<not> (0::real) < 0"
  by (simp add: calc_windspeed_def sample_data_def sample_dataset_def ERAJetStreamData_init_def
      find_level_index_def set_sensitivity_def select_grid_def getitem_def windspeed_grid_def
      same_shape_def magnitude_row_def shiftgrid_def shift_index_def rotate_columns_def)

subsection \<open>What the computation leaves alone\<close>

text \<open>
  C6: \<^verbatim>\<open>calc_windspeed\<close> reads the dataset and assigns only the three result
  attributes of the object. Whenever it returns, the dataset it holds (the level,
  longitude, latitude and time axes and the fields u and v) is the one it held before,
  and the latitudes it stores are the latitude axis of the dataset, unchanged; on a
  well-formed dataset, with a valid time index and a level of the axis, it does return.
\<close>

theorem calc_windspeed_leaves_dataset:
  "(\<forall>self'. calc_windspeed self idx level_arg sensitivity = Inr self' \<longrightarrow>
        data self' = data self \<and> lat self' = Some (nc_latitude (data self)))
   \<and> (wf_dataset (data self) \<and> idx < length (nc_time (data self))
        \<and> level_arg \<in> set (nc_level (data self)) \<longrightarrow>
        (\<exists>self'. calc_windspeed self idx level_arg sensitivity = Inr self'))"
proof (intro conjI allI impI)
  fix self' assume "calc_windspeed self idx level_arg sensitivity = Inr self'"
  then show "data self' = data self" "lat self' = Some (nc_latitude (data self))"
    by (rule calc_windspeed_frame)+
next
  assume "wf_dataset (data self) \<and> idx < length (nc_time (data self))
        \<and> level_arg \<in> set (nc_level (data self))"
  then have wf: "wf_dataset (data self)" and idx: "idx < length (nc_time (data self))"
    and lev: "level_arg \<in> set (nc_level (data self))" by simp_all
  from calc_windspeed_cells [OF wf idx lev, of sensitivity]
  show "\<exists>self'. calc_windspeed self idx level_arg sensitivity = Inr self'" by blast
qed

theorem calc_windspeed_leaves_dataset_witness:
  "calc_windspeed sample_data 0 250 1
     = Inr (sample_data\<lparr>lon := Some [-180, -90, 0, 90], lat := Some [45],
                         windspeed := Some [[10, 0, 5, 0]]\<rparr>)
   \<and> data (sample_data\<lparr>lon := Some [-180, -90, 0, 90], lat := Some [45],
                         windspeed := Some [[10, 0, 5, 0]]\<rparr>) = data sample_data
   \<and> lat (sample_data\<lparr>lon := Some [-180, -90, 0, 90], lat := Some [45],
                         windspeed := Some [[10, 0, 5, 0]]\<rparr>)
       = Some (nc_latitude (data sample_data))
   \<and> wf_dataset (data sample_data) \<and> (0::nat) < length (nc_time (data sample_data))
   \<and> 250 \<in> set (nc_level (data sample_data))
   \<and> (\<exists>self'. calc_windspeed sample_data 0 250 1 = Inr self')"
proof -
  have h3: "250 \<in> set (nc_level (data sample_data))" by (simp add: sample_levels)
  from calc_windspeed_leaves_dataset [of sample_data 0 250 1] sample_run sample_wf sample_idx0 h3
  show ?thesis by blast
qed

subsection \<open>Re-centring the longitudes\<close>

lemma source_column_bij:
  "bij_betw (source_column lons) {..<length lons} {..<length lons}"
proof (cases "length lons = 0")
  case True
  then show ?thesis by (simp add: bij_betw_def)
next
  case False
  let ?n = "length lons" and ?k = "shift_index 180 lons"
  have inj: "inj_on (source_column lons) {..<?n}"
  proof (rule inj_onI)
    fix a b assume a: "a \<in> {..<?n}" and b: "b \<in> {..<?n}"
      and eq: "source_column lons a = source_column lons b"
    have k: "?k \<le> ?n" by (rule shift_index_le)
    have form: "source_column lons j = (if j + ?k < ?n then j + ?k else j + ?k - ?n)"
      if "j < ?n" for j
    proof (cases "j + ?k < ?n")
      case True
      then show ?thesis by (simp add: source_column_def)
    next
      case False
      then have "?n \<le> j + ?k" by simp
      then have "(j + ?k) mod ?n = (j + ?k - ?n) mod ?n" by (rule le_mod_geq)
      moreover have "j + ?k - ?n < ?n" using that k by simp
      ultimately show ?thesis using False by (simp add: source_column_def)
    qed
    from a b have "a < ?n" "b < ?n" by simp_all
    with eq form [of a] form [of b] k show "a = b"
      by (simp split: if_splits)
  qed
  have "source_column lons ` {..<?n} \<subseteq> {..<?n}"
    using source_column_less by auto
  with inj have "source_column lons ` {..<?n} = {..<?n}"
    by (intro endo_inj_surj) auto
  with inj show ?thesis by (simp add: bij_betw_def)
qed

lemma dropWhile_sorted_ge:
  "sorted_wrt (<) (xs :: real list) \<Longrightarrow> \<forall>x \<in> set (dropWhile (\<lambda>x. x < c) xs). c \<le> x"
  by (induction xs) auto

lemma take_shift_index: "take (shift_index c lons) lons = takeWhile (\<lambda>x. x < c) lons"
  by (simp add: shift_index_def takeWhile_eq_take [symmetric])

lemma drop_shift_index: "drop (shift_index c lons) lons = dropWhile (\<lambda>x. x < c) lons"
  by (simp add: shift_index_def dropWhile_eq_drop [symmetric])

lemma before_cut: "x \<in> set (take (shift_index c lons) lons) \<Longrightarrow> x < c"
  by (auto simp: take_shift_index dest: set_takeWhileD)

lemma after_cut:
  "sorted_wrt (<) lons \<Longrightarrow> x \<in> set (drop (shift_index c lons) lons) \<Longrightarrow> c \<le> x"
  using dropWhile_sorted_ge [of lons c] by (simp add: drop_shift_index)

lemma shifted_lons:
  "snd (shiftgrid 180 g lons)
     = map (\<lambda>x. x - 360) (drop (shift_index 180 lons) lons) @ take (shift_index 180 lons) lons"
  by (simp add: shiftgrid_def Let_def)

lemma shifted_lons_recentre:
  assumes "sorted_wrt (<) lons"
  shows "snd (shiftgrid 180 g lons) = map recentre (rotate_columns (shift_index 180 lons) lons)"
proof -
  have "map recentre (drop (shift_index 180 lons) lons)
          = map (\<lambda>x. x - 360) (drop (shift_index 180 lons) lons)"
    using after_cut [OF assms, of _ 180] by (intro map_cong) (auto simp: recentre_def)
  moreover have "recentre x = x" if "x \<in> set (take (shift_index 180 lons) lons)" for x
    using before_cut [OF that] by (simp add: recentre_def)
  then have "map recentre (take (shift_index 180 lons) lons) = take (shift_index 180 lons) lons"
    by (rule map_idI)
  ultimately show ?thesis by (simp add: shifted_lons rotate_columns_def)
qed

lemma shifted_lons_range:
  assumes "longitude_axis lons" "x \<in> set (snd (shiftgrid 180 g lons))"
  shows "- 180 \<le> x \<and> x < 180"
proof -
  from assms(1) have srt: "sorted_wrt (<) lons" and rng: "\<And>y. y \<in> set lons \<Longrightarrow> 0 \<le> y \<and> y < 360"
    by (auto simp: longitude_axis_def)
  from assms(2) consider
    y where "y \<in> set (drop (shift_index 180 lons) lons)" "x = y - 360"
    | "x \<in> set (take (shift_index 180 lons) lons)"
    by (auto simp: shifted_lons)
  then show ?thesis
  proof cases
    case 1
    from 1(1) have "y \<in> set lons" by (rule in_set_dropD)
    with rng [of y] after_cut [OF srt 1(1)] 1(2) show ?thesis by simp
  next
    case 2
    then have "x \<in> set lons" by (rule in_set_takeD)
    with rng [of x] before_cut [OF 2] show ?thesis by simp
  qed
qed

lemma shifted_lons_sorted:
  assumes "longitude_axis lons"
  shows "sorted_wrt (<) (snd (shiftgrid 180 g lons))"
proof -
  from assms have srt: "sorted_wrt (<) lons" and rng: "\<And>y. y \<in> set lons \<Longrightarrow> 0 \<le> y \<and> y < 360"
    by (auto simp: longitude_axis_def)
  let ?k = "shift_index 180 lons"
  have a: "sorted_wrt (<) (map (\<lambda>x. x - 360) (drop ?k lons))"
    using sorted_wrt_drop [OF srt, of ?k] by (simp add: sorted_wrt_map)
  have b: "sorted_wrt (<) (take ?k lons)" using srt by (rule sorted_wrt_take)
  have c: "x - 360 < y" if "x \<in> set (drop ?k lons)" "y \<in> set (take ?k lons)" for x y
  proof -
    from that have "x \<in> set lons" "y \<in> set lons"
      by (auto dest: in_set_dropD in_set_takeD)
    with rng [of x] rng [of y] show ?thesis by simp
  qed
  show ?thesis
    using a b c by (auto simp: shifted_lons sorted_wrt_append)
qed

lemma shifted_lons_nth:
  assumes "sorted_wrt (<) lons" "j < length lons"
  shows "snd (shiftgrid 180 g lons) ! j = recentre (lons ! source_column lons j)"
  using assms rotate_columns_nth [of "shift_index 180 lons" lons j] shift_index_le [of 180 lons]
  by (simp add: shifted_lons_recentre length_rotate_columns source_column_def)

lemma shifted_grid_nth:
  assumes "i < length g" "length (g ! i) = length lons" "j < length lons"
  shows "fst (shiftgrid 180 g lons) ! i ! j = g ! i ! source_column lons j"
  using assms rotate_columns_nth [of "shift_index 180 lons" "g ! i" j] shift_index_le [of 180 lons]
  by (simp add: shiftgrid_def Let_def source_column_def)

lemma rotate_back:
  assumes "k \<le> length row"
  shows "rotate_columns (length row - k) (rotate_columns k row) = row"
  using assms by (simp add: rotate_columns_def)

lemma takeWhile_none: "\<forall>x \<in> set xs. \<not> P x \<Longrightarrow> takeWhile P xs = []"
  by (cases xs) simp_all

lemma unshift_index:
  assumes "\<forall>x \<in> set lons. 0 \<le> x \<and> x < 360"
  shows "shift_index 0 (snd (shiftgrid 180 g lons)) = length lons - shift_index 180 lons"
proof -
  let ?k = "shift_index 180 lons"
  have neg: "\<forall>x \<in> set (map (\<lambda>x. x - 360) (drop ?k lons)). x < 0"
    using assms by (auto dest: in_set_dropD)
  have "\<forall>x \<in> set (take ?k lons). \<not> x < 0"
  proof
    fix x assume "x \<in> set (take ?k lons)"
    then have "x \<in> set lons" by (rule in_set_takeD)
    with assms show "\<not> x < 0" by auto
  qed
  then have nonneg: "takeWhile (\<lambda>x. x < 0) (take ?k lons) = []"
    by (rule takeWhile_none)
  have "takeWhile (\<lambda>x. x < 0) (map (\<lambda>x. x - 360) (drop ?k lons) @ take ?k lons)
          = map (\<lambda>x. x - 360) (drop ?k lons) @ takeWhile (\<lambda>x. x < 0) (take ?k lons)"
    using neg by (intro takeWhile_append2) blast
  then have "takeWhile (\<lambda>x. x < 0) (snd (shiftgrid 180 g lons))
          = map (\<lambda>x. x - 360) (drop ?k lons)"
    by (simp only: shifted_lons nonneg append_Nil2)
  then show ?thesis by (simp add: shift_index_def)
qed

text \<open>
  C5: on a longitude axis within [0, 360) and a grid whose rows have one cell per
  longitude, shifting the grid and then shifting it back gives the longitudes and the
  grid, columns in their order, that one started from.
\<close>

theorem shiftgrid_round_trip:
  assumes rng: "\<forall>x \<in> set lons. 0 \<le> x \<and> x < 360"
    and shape: "\<forall>row \<in> set g. length row = length lons"
  shows "unshiftgrid (fst (shiftgrid 180 g lons)) (snd (shiftgrid 180 g lons)) = (g, lons)"
proof -
  let ?k = "shift_index 180 lons"
  have k: "?k \<le> length lons" by (rule shift_index_le)
  have u: "shift_index 0 (snd (shiftgrid 180 g lons)) = length lons - ?k"
    using rng by (rule unshift_index)
  have rows: "map (rotate_columns (length lons - ?k)) (fst (shiftgrid 180 g lons)) = g"
  proof -
    have "rotate_columns (length lons - ?k) (rotate_columns ?k row) = row" if "row \<in> set g" for row
      using rotate_back [of ?k row] shape that k by simp
    then show ?thesis by (simp add: shiftgrid_def Let_def map_idI)
  qed
  have lons: "drop (length lons - ?k) (snd (shiftgrid 180 g lons))
                @ map (\<lambda>x. x + 360) (take (length lons - ?k) (snd (shiftgrid 180 g lons))) = lons"
    using k by (simp add: shifted_lons comp_def)
  show ?thesis
    unfolding unshiftgrid_def Let_def u by (simp only: rows lons)
qed

theorem shiftgrid_round_trip_witness:
  "set [0, 90, 180, 270 :: real] \<subseteq> {0..<360}
   \<and> map length [[1, 2, 3, 4], [5, 6, 7, 8 :: real]]
       = [length [0, 90, 180, 270 :: real], length [0, 90, 180, 270 :: real]]
   \<and> shiftgrid 180 [[1, 2, 3, 4], [5, 6, 7, 8]] [0, 90, 180, 270]
       = ([[3, 4, 1, 2], [7, 8, 5, 6]], [-180, -90, 0, 90])
   \<and> unshiftgrid (fst (shiftgrid 180 [[1, 2, 3, 4], [5, 6, 7, 8]] [0, 90, 180, 270]))
                 (snd (shiftgrid 180 [[1, 2, 3, 4], [5, 6, 7, 8]] [0, 90, 180, 270]))
       = ([[1, 2, 3, 4], [5, 6, 7, 8]], [0, 90, 180, 270])"
proof -
  have h1: "\<forall>x \<in> set [0, 90, 180, 270 :: real]. 0 \<le> x \<and> x < 360" by simp
  have h2: "\<forall>row \<in> set [[1, 2, 3, 4], [5, 6, 7, 8 :: real]].
              length row = length [0, 90, 180, 270 :: real]" by simp
  have run: "shiftgrid 180 [[1, 2, 3, 4], [5, 6, 7, 8]] [0, 90, 180, 270]
       = ([[3, 4, 1, 2], [7, 8, 5, 6]], [-180, -90, 0, 90])"
    by (simp add: shiftgrid_def shift_index_def rotate_columns_def)
  have h1': "set [0, 90, 180, 270 :: real] \<subseteq> {0..<360}" by simp
  have h2': "map length [[1, 2, 3, 4], [5, 6, 7, 8 :: real]]
       = [length [0, 90, 180, 270 :: real], length [0, 90, 180, 270 :: real]]" by simp
  from shiftgrid_round_trip [OF h1 h2] h1' h2' run show ?thesis by blast
qed

lemma windspeed_grid_wf:
  assumes wf: "wf_dataset d" and idx: "idx < length (nc_time d)"
    and li: "levindex < length (nc_level d)"
  shows "windspeed_grid s (nc_u d ! idx ! levindex) (nc_v d ! idx ! levindex)
           = Inr (map (\<lambda>(us, vs). magnitude_row s us vs)
                    (zip (nc_u d ! idx ! levindex) (nc_v d ! idx ! levindex)))"
    and "grid_shape (length (nc_latitude d)) (length (nc_longitude d))
           (map (\<lambda>(us, vs). magnitude_row s us vs)
                    (zip (nc_u d ! idx ! levindex) (nc_v d ! idx ! levindex)))"
proof -
  from wf have fu: "field_shape d (nc_u d)" and fv: "field_shape d (nc_v d)"
    by (simp_all add: wf_dataset_def)
  note gu = select_grid_wf(2) [OF fu idx li] and gv = select_grid_wf(2) [OF fv idx li]
  have "same_shape (nc_u d ! idx ! levindex) (nc_v d ! idx ! levindex)"
    using gu gv by (rule grid_shape_same)
  then show "windspeed_grid s (nc_u d ! idx ! levindex) (nc_v d ! idx ! levindex)
           = Inr (map (\<lambda>(us, vs). magnitude_row s us vs)
                    (zip (nc_u d ! idx ! levindex) (nc_v d ! idx ! levindex)))"
    by (simp add: windspeed_grid_def)
  show "grid_shape (length (nc_latitude d)) (length (nc_longitude d))
           (map (\<lambda>(us, vs). magnitude_row s us vs)
                    (zip (nc_u d ! idx ! levindex) (nc_v d ! idx ! levindex)))"
    using gu gv
    by (auto simp: grid_shape_def length_magnitude_row set_zip)
qed

text \<open>
  C4: on a well-formed dataset whose longitude axis increases within [0, 360), the
  longitudes that \<^verbatim>\<open>calc_windspeed\<close> stores lie in [-180, 180) and increase, and
  one permutation of the columns, \<open>source_column\<close>, relates both results to their
  sources: the longitude stored at position \<open>j\<close> is the source longitude at
  \<open>source_column j\<close>, expressed in [-180, 180), and the cell stored in column
  \<open>j\<close> of a row is the cell that the scaled magnitude grid \<open>W\<close> has in column
  \<open>source_column j\<close> of that row.
\<close>

theorem calc_windspeed_recentres:
  assumes wf: "wf_dataset (data self)"
    and idx: "idx < length (nc_time (data self))"
    and lev: "level_arg \<in> set (nc_level (data self))"
    and axis: "longitude_axis (nc_longitude (data self))"
  shows "\<exists>levindex W self' lons' ws'.
           find_level_index (nc_level (data self)) level_arg = Inr levindex
         \<and> windspeed_grid (set_sensitivity level_arg sensitivity)
              (nc_u (data self) ! idx ! levindex) (nc_v (data self) ! idx ! levindex) = Inr W
         \<and> calc_windspeed self idx level_arg sensitivity = Inr self'
         \<and> lon self' = Some lons' \<and> windspeed self' = Some ws'
         \<and> length lons' = length (nc_longitude (data self))
         \<and> (\<forall>x \<in> set lons'. - 180 \<le> x \<and> x < 180)
         \<and> sorted_wrt (<) lons'
         \<and> bij_betw (source_column (nc_longitude (data self)))
              {..<length (nc_longitude (data self))} {..<length (nc_longitude (data self))}
         \<and> (\<forall>j<length (nc_longitude (data self)).
               lons' ! j = recentre (nc_longitude (data self)
                                       ! source_column (nc_longitude (data self)) j)
             \<and> (\<forall>i<length (nc_latitude (data self)).
                   ws' ! i ! j = W ! i ! source_column (nc_longitude (data self)) j))"
proof -
  let ?lons = "nc_longitude (data self)"
  from lev obtain levindex where li: "levindex < length (nc_level (data self))"
    and fl: "find_level_index (nc_level (data self)) level_arg = Inr levindex"
    by (rule find_level_index_present)
  define W where "W = map (\<lambda>(us, vs). magnitude_row (set_sensitivity level_arg sensitivity) us vs)
                  (zip (nc_u (data self) ! idx ! levindex) (nc_v (data self) ! idx ! levindex))"
  note c = calc_windspeed_success [OF wf idx fl li W_def]
  note w = windspeed_grid_wf [OF wf idx li, of "set_sensitivity level_arg sensitivity",
      folded W_def]
  from axis have srt: "sorted_wrt (<) ?lons" by (simp add: longitude_axis_def)
  have lW: "length W = length (nc_latitude (data self))"
    and rW: "\<And>i. i < length (nc_latitude (data self)) \<Longrightarrow> length (W ! i) = length ?lons"
    using w(2) by (auto simp: grid_shape_def)
  show ?thesis
  proof (intro exI conjI ballI allI impI)
    show "find_level_index (nc_level (data self)) level_arg = Inr levindex" by (rule fl)
    show "windspeed_grid (set_sensitivity level_arg sensitivity)
              (nc_u (data self) ! idx ! levindex) (nc_v (data self) ! idx ! levindex) = Inr W"
      by (rule w(1))
    show "calc_windspeed self idx level_arg sensitivity
            = Inr (self\<lparr>lon := Some (snd (shiftgrid 180 W ?lons)),
                        lat := Some (nc_latitude (data self)),
                        windspeed := Some (fst (shiftgrid 180 W ?lons))\<rparr>)"
      by (rule c)
    show "lon (self\<lparr>lon := Some (snd (shiftgrid 180 W ?lons)),
                        lat := Some (nc_latitude (data self)),
                        windspeed := Some (fst (shiftgrid 180 W ?lons))\<rparr>)
            = Some (snd (shiftgrid 180 W ?lons))" by simp
    show "windspeed (self\<lparr>lon := Some (snd (shiftgrid 180 W ?lons)),
                        lat := Some (nc_latitude (data self)),
                        windspeed := Some (fst (shiftgrid 180 W ?lons))\<rparr>)
            = Some (fst (shiftgrid 180 W ?lons))" by simp
    show "length (snd (shiftgrid 180 W ?lons)) = length ?lons"
      using shift_index_le [of 180 ?lons] by (simp add: shifted_lons)
    show "sorted_wrt (<) (snd (shiftgrid 180 W ?lons))"
      using axis by (rule shifted_lons_sorted)
    show "bij_betw (source_column ?lons) {..<length ?lons} {..<length ?lons}"
      by (rule source_column_bij)
  next
    fix x assume "x \<in> set (snd (shiftgrid 180 W ?lons))"
    with axis show "- 180 \<le> x" "x < 180" using shifted_lons_range by blast+
  next
    fix j assume j: "j < length ?lons"
    with srt show "snd (shiftgrid 180 W ?lons) ! j = recentre (?lons ! source_column ?lons j)"
      by (rule shifted_lons_nth)
    fix i assume i: "i < length (nc_latitude (data self))"
    show "fst (shiftgrid 180 W ?lons) ! i ! j = W ! i ! source_column ?lons j"
      using i j lW rW [OF i] by (intro shifted_grid_nth) simp_all
  qed
qed

lemma sample_axis: "longitude_axis (nc_longitude (data sample_data))"
  by (simp add: sample_data_def sample_dataset_def ERAJetStreamData_init_def longitude_axis_def)

theorem calc_windspeed_recentres_witness:
  "wf_dataset (data sample_data) \<and> (0::nat) < length (nc_time (data sample_data))
   \<and> 250 \<in> set (nc_level (data sample_data))
   \<and> longitude_axis (nc_longitude (data sample_data))
   \<and> (\<exists>levindex W self' lons' ws'.
           find_level_index (nc_level (data sample_data)) 250 = Inr levindex
         \<and> windspeed_grid (set_sensitivity 250 1)
              (nc_u (data sample_data) ! 0 ! levindex) (nc_v (data sample_data) ! 0 ! levindex)
             = Inr W
         \<and> calc_windspeed sample_data 0 250 1 = Inr self'
         \<and> lon self' = Some lons' \<and> windspeed self' = Some ws'
         \<and> length lons' = length (nc_longitude (data sample_data))
         \<and> (\<forall>x \<in> set lons'. - 180 \<le> x \<and> x < 180)
         \<and> sorted_wrt (<) lons'
         \<and> bij_betw (source_column (nc_longitude (data sample_data)))
              {..<length (nc_longitude (data sample_data))}
              {..<length (nc_longitude (data sample_data))}
         \<and> (\<forall>j<length (nc_longitude (data sample_data)).
               lons' ! j = recentre (nc_longitude (data sample_data)
                                       ! source_column (nc_longitude (data sample_data)) j)
             \<and> (\<forall>i<length (nc_latitude (data sample_data)).
                   ws' ! i ! j = W ! i ! source_column (nc_longitude (data sample_data)) j)))
   \<and> calc_windspeed sample_data 0 250 1
       = Inr (sample_data\<lparr>lon := Some [-180, -90, 0, 90], lat := Some [45],
                           windspeed := Some [[10, 0, 5, 0]]\<rparr>)"
proof -
  have h3: "250 \<in> set (nc_level (data sample_data))" by (simp add: sample_levels)
  from calc_windspeed_recentres [OF sample_wf sample_idx0 h3 sample_axis, of 1]
    sample_wf sample_idx0 h3 sample_axis sample_run
  show ?thesis by blast
qed

subsection \<open>The loop over the time steps\<close>

lemma calc_windspeed_sets:
  assumes "calc_windspeed self idx level_arg sensitivity = Inr self'"
  shows "\<exists>lo la ws. lon self' = Some lo \<and> lat self' = Some la \<and> windspeed self' = Some ws"
  using assms
  by (auto simp: calc_windspeed_def Let_def split: sum.splits prod.splits)

lemma create_map_after:
  assumes "lon s = Some lo" "lat s = Some la" "windspeed s = Some ws"
  shows "\<exists>m f. create_map s level_arg timestr west east south north = Inr m \<and> fig m = Some f"
  using assms by (simp add: create_map_def render_def Let_def)

lemma time_loop_fail:
  assumes "calc_windspeed_default s i (level a) = Inl e"
  shows "time_loop ev a box s ((i, t) # rest) = ([], Uncaught e)"
  using assms by (simp add: Let_def)

lemma time_loop_step:
  assumes "calc_windspeed_default s i (level a) = Inr s'"
  shows "\<exists>f. time_loop ev a box s ((i, t) # rest)
           = (timestep_events ev a (data s) t f @ fst (time_loop ev a box s' rest),
              snd (time_loop ev a box s' rest))"
proof -
  from assms obtain lo la ws where
    "lon s' = Some lo" "lat s' = Some la" "windspeed s' = Some ws"
    unfolding calc_windspeed_default_def by (blast dest: calc_windspeed_sets)
  then obtain m f where
    m: "create_map s' (level a)
          (date_string ev (nc_time_units (data s)) (nc_time_calendar (data s)) t)
          (fst box) (fst (snd box)) (fst (snd (snd box))) (snd (snd (snd box))) = Inr m"
    and f: "fig m = Some f"
    using create_map_after by blast
  have "time_loop ev a box s ((i, t) # rest)
           = (timestep_events ev a (data s) t f @ fst (time_loop ev a box s' rest),
              snd (time_loop ev a box s' rest))"
    using assms m f
    by (cases box)
       (simp add: Let_def split_beta timestep_events_def timestr_of_def figname_of_def)
  then show ?thesis ..
qed

lemma time_loop_trace:
  "\<exists>k figs. k \<le> length its \<and> length figs = k
      \<and> fst (time_loop ev a box s its)
          = concat (map (\<lambda>((i, t), f). timestep_events ev a (data s) t f) (zip (take k its) figs))
      \<and> (snd (time_loop ev a box s its) = Exit 0 \<longleftrightarrow> k = length its)"
proof (induction its arbitrary: s)
  case Nil
  show ?case by simp
next
  case (Cons it rest)
  obtain i t where it: "it = (i, t)" by (cases it)
  show ?case
  proof (cases "calc_windspeed_default s i (level a)")
    case (Inl e)
    have "time_loop ev a box s (it # rest) = ([], Uncaught e)"
      unfolding it using Inl by (rule time_loop_fail)
    then show ?thesis by (intro exI [of _ 0] exI [of _ "[]"]) simp
  next
    case (Inr s')
    then have d: "data s' = data s"
      unfolding calc_windspeed_default_def by (rule calc_windspeed_frame)
    from time_loop_step [OF Inr] obtain f where
      step: "time_loop ev a box s (it # rest)
           = (timestep_events ev a (data s) t f @ fst (time_loop ev a box s' rest),
              snd (time_loop ev a box s' rest))"
      unfolding it by blast
    from Cons.IH [of s'] obtain k figs where
      k: "k \<le> length rest" "length figs = k"
         "fst (time_loop ev a box s' rest)
            = concat (map (\<lambda>((i, t), f). timestep_events ev a (data s) t f) (zip (take k rest) figs))"
         "snd (time_loop ev a box s' rest) = Exit 0 \<longleftrightarrow> k = length rest"
      unfolding d by blast
    show ?thesis
      using k
      by (intro exI [of _ "Suc k"] exI [of _ "f # figs"])
         (simp add: step [unfolded it] it del: time_loop.simps)
  qed
qed

lemma time_loop_completes:
  assumes "wf_dataset (data s)" "level a \<in> set (nc_level (data s))"
    and "\<forall>it \<in> set its. fst it < length (nc_time (data s))"
  shows "snd (time_loop ev a box s its) = Exit 0"
  using assms
proof (induction its arbitrary: s)
  case Nil
  show ?case by simp
next
  case (Cons it rest)
  obtain i t where it: "it = (i, t)" by (cases it)
  with Cons.prems have i: "i < length (nc_time (data s))" by simp
  from calc_windspeed_cells [OF Cons.prems(1) i Cons.prems(2), of 0] obtain s' where
    s': "calc_windspeed_default s i (level a) = Inr s'"
    unfolding calc_windspeed_default_def by blast
  then have d: "data s' = data s"
    unfolding calc_windspeed_default_def by (rule calc_windspeed_frame)
  from time_loop_step [OF s'] obtain f where
    step: "time_loop ev a box s (it # rest)
           = (timestep_events ev a (data s) t f @ fst (time_loop ev a box s' rest),
              snd (time_loop ev a box s' rest))"
    unfolding it by blast
  have "snd (time_loop ev a box s' rest) = Exit 0"
    using Cons.prems by (intro Cons.IH) (simp_all add: d)
  then show ?case by (simp add: step del: time_loop.simps)
qed

lemma zip_enumerate_events:
  "map (\<lambda>((i, t), f). h t f) (zip (take k (enumerate 0 ts)) figs)
     = map (\<lambda>(t, f). h t f) (zip (take k ts) figs)"
proof -
  have "map (\<lambda>((i, t), f). h t f) (zip (take k (enumerate 0 ts)) figs)
          = map (\<lambda>(t, f). h t f) (zip (map snd (take k (enumerate 0 ts))) figs)"
    by (simp add: zip_map1 split_beta)
  also have "map snd (take k (enumerate 0 ts)) = take k ts"
    by (simp add: take_map [symmetric])
  finally show ?thesis .
qed

lemma process_times_trace:
  assumes "data s = d"
  shows "\<exists>k figs. k \<le> length (nc_time d) \<and> length figs = k
      \<and> events (process_times ev a box s pre fs)
          = pre @ concat (map (\<lambda>(t, f). timestep_events ev a d t f) (zip (take k (nc_time d)) figs))
      \<and> files (process_times ev a box s pre fs) = fs
      \<and> (ending (process_times ev a box s pre fs) = Exit 0 \<longleftrightarrow> k = length (nc_time d))
      \<and> (wf_dataset d \<and> level a \<in> set (nc_level d) \<longrightarrow> k = length (nc_time d))"
proof -
  from time_loop_trace [of "enumerate 0 (nc_time d)" ev a box s] obtain k figs where
    k: "k \<le> length (nc_time d)" "length figs = k"
       "fst (time_loop ev a box s (enumerate 0 (nc_time d)))
          = concat (map (\<lambda>((i, t), f). timestep_events ev a d t f)
                      (zip (take k (enumerate 0 (nc_time d))) figs))"
       "snd (time_loop ev a box s (enumerate 0 (nc_time d))) = Exit 0 \<longleftrightarrow> k = length (nc_time d)"
    unfolding assms by auto
  have full: "snd (time_loop ev a box s (enumerate 0 (nc_time d))) = Exit 0"
    if "wf_dataset d" "level a \<in> set (nc_level d)"
    using that assms by (intro time_loop_completes) (auto simp: in_set_enumerate_eq)
  show ?thesis
    using k full
    by (intro exI [of _ k] exI [of _ figs])
       (simp add: process_times_def assms split_beta zip_enumerate_events)
qed

subsection \<open>The script\<close>

lemma main_listing:
  assumes "unpack_area (to_float ev) (split_on CHR '','' (area a)) = Inr box"
    and "open_dataset ev (datafile a) = Inr d"
    and "listlevels a"
  shows "main ev a fs
           = \<lparr>events = Print (''Levels available in dataset '' @ datafile a @ '':'')
                        # map (\<lambda>l. Print (''    '' @ string_of_int l)) (nc_level d),
              files = fs, ending = Exit 0\<rparr>"
  using assms by (simp add: main_def list_levels_def ERAJetStreamData_init_def)

lemma main_conflict:
  assumes "unpack_area (to_float ev) (split_on CHR '','' (area a)) = Inr box"
    and "open_dataset ev (datafile a) = Inr d"
    and "\<not> listlevels a" and "fs (outdir a) = Some File"
  shows "main ev a fs
           = \<lparr>events = [Print (''Can't create dir '' @ outdir a
                                 @ '': there's a file by that name'')],
              files = fs, ending = Exit 1\<rparr>"
  using assms by (simp add: main_def)

lemma main_processes:
  assumes "unpack_area (to_float ev) (split_on CHR '','' (area a)) = Inr box"
    and "open_dataset ev (datafile a) = Inr d"
    and "\<not> listlevels a" and "fs (outdir a) \<noteq> Some File"
  shows "main ev a fs
           = process_times ev a box (ERAJetStreamData_init d)
               (if fs (outdir a) = None then [Mkdir (outdir a)] else [])
               (if fs (outdir a) = None then fs(outdir a \<mapsto> Dir) else fs)"
proof (cases "fs (outdir a)")
  case None
  with assms show ?thesis by (simp add: main_def)
next
  case (Some n)
  with assms(4) have "n = Dir" by (cases n) simp_all
  with Some assms show ?thesis by (simp add: main_def)
qed

text \<open>
  C7: a run that gets to the loop (the area and the data file are read, the levels are
  not being listed, the output path is no file) leaves, after the directory step, exactly
  this trace: for each of the first \<open>k\<close> time steps, in order, one figure saved under
  \<^verbatim>\<open>{outdir}/{date}-{level}.png\<close>, the date being the date string of that time
  step, followed at once by the printing of that same file name. The \<open>k\<close> time steps
  are those processed before an exception, if any, ended the run: the run ends normally
  exactly when \<open>k\<close> is the number of time steps, which it is on a well-formed dataset
  that has the requested level.
\<close>

theorem main_saves_one_image_per_timestep:
  assumes box: "unpack_area (to_float ev) (split_on CHR '','' (area a)) = Inr box"
    and d: "open_dataset ev (datafile a) = Inr d"
    and nl: "\<not> listlevels a"
    and nf: "fs (outdir a) \<noteq> Some File"
  shows "\<exists>k figs. k \<le> length (nc_time d) \<and> length figs = k
      \<and> events (main ev a fs)
          = (if fs (outdir a) = None then [Mkdir (outdir a)] else [])
            @ concat (map (\<lambda>(t, f).
                [SaveFig (outdir a @ ''/'' @ timestr_of ev d t @ ''-''
                            @ string_of_int (level a) @ ''.png'') (dpi a) f,
                 Print (outdir a @ ''/'' @ timestr_of ev d t @ ''-''
                          @ string_of_int (level a) @ ''.png'')])
              (zip (take k (nc_time d)) figs))
      \<and> (ending (main ev a fs) = Exit 0 \<longleftrightarrow> k = length (nc_time d))
      \<and> (wf_dataset d \<and> level a \<in> set (nc_level d) \<longrightarrow> k = length (nc_time d))"
proof -
  have "data (ERAJetStreamData_init d) = d" by (simp add: ERAJetStreamData_init_def)
  from process_times_trace [OF this, of ev a box
      "if fs (outdir a) = None then [Mkdir (outdir a)] else []"
      "if fs (outdir a) = None then fs(outdir a \<mapsto> Dir) else fs"]
  show ?thesis
    unfolding main_processes [where fs = fs, OF box d nl nf] timestep_events_def by blast
qed

lemma sample_box:
  "unpack_area (to_float sample_env) (split_on CHR '','' (area sample_args))
     = Inr (- 180, 180, - 70, 74)"
  by (simp add: unpack_area_def sample_env_def sample_args_def)

lemma sample_open: "open_dataset sample_env (datafile sample_args) = Inr sample_dataset"
  by (simp add: sample_env_def sample_args_def)

lemma sample_dataset_wf: "wf_dataset sample_dataset"
  using sample_wf by (simp add: sample_data_def ERAJetStreamData_init_def)

lemma sample_main:
  "main sample_env sample_args Map.empty
     = \<lparr>events =
          [Mkdir ''maps'',
           SaveFig ''maps/2014-01-30-250.png'' 100
             \<lparr>fig_llcrnrlon = - 180, fig_urcrnrlon = 180, fig_llcrnrlat = - 70,
              fig_urcrnrlat = 74, fig_lon = [- 180, - 90, 0, 90], fig_lat = [45],
              fig_windspeed = [[35, 0, 17.5, 0]], fig_vmin = 80, fig_vmax = 220,
              fig_title = ''Jet Stream 2014-01-30''\<rparr>,
           Print ''maps/2014-01-30-250.png'',
           SaveFig ''maps/2014-01-31-250.png'' 100
             \<lparr>fig_llcrnrlon = - 180, fig_urcrnrlon = 180, fig_llcrnrlat = - 70,
              fig_urcrnrlat = 74, fig_lon = [- 180, - 90, 0, 90], fig_lat = [45],
              fig_windspeed = [[0, 0, 45.5, 0]], fig_vmin = 80, fig_vmax = 220,
              fig_title = ''Jet Stream 2014-01-31''\<rparr>,
           Print ''maps/2014-01-31-250.png''],
        files = [''maps'' \<mapsto> Dir], ending = Exit 0\<rparr>"
proof -
  have nl: "\<not> listlevels sample_args" by (simp add: sample_args_def)
  have nf: "Map.empty (outdir sample_args) \<noteq> Some File" by simp
  have out: "outdir sample_args = ''maps''" by (simp add: sample_args_def)
  have "main sample_env sample_args Map.empty
          = process_times sample_env sample_args (- 180, 180, - 70, 74)
              (ERAJetStreamData_init sample_dataset) [Mkdir ''maps''] [''maps'' \<mapsto> Dir]"
    using main_processes [where fs = Map.empty, OF sample_box sample_open nl nf]
    by (simp add: out)
  also have "\<dots> = \<lparr>events =
          [Mkdir ''maps'',
           SaveFig ''maps/2014-01-30-250.png'' 100
             \<lparr>fig_llcrnrlon = - 180, fig_urcrnrlon = 180, fig_llcrnrlat = - 70,
              fig_urcrnrlat = 74, fig_lon = [- 180, - 90, 0, 90], fig_lat = [45],
              fig_windspeed = [[35, 0, 17.5, 0]], fig_vmin = 80, fig_vmax = 220,
              fig_title = ''Jet Stream 2014-01-30''\<rparr>,
           Print ''maps/2014-01-30-250.png'',
           SaveFig ''maps/2014-01-31-250.png'' 100
             \<lparr>fig_llcrnrlon = - 180, fig_urcrnrlon = 180, fig_llcrnrlat = - 70,
              fig_urcrnrlat = 74, fig_lon = [- 180, - 90, 0, 90], fig_lat = [45],
              fig_windspeed = [[0, 0, 45.5, 0]], fig_vmin = 80, fig_vmax = 220,
              fig_title = ''Jet Stream 2014-01-31''\<rparr>,
           Print ''maps/2014-01-31-250.png''],
        files = [''maps'' \<mapsto> Dir], ending = Exit 0\<rparr>"
    by (simp add: Let_def process_times_def sample_env_def sample_args_def sample_dataset_def
      ERAJetStreamData_init_def enumerate_eq_zip
      calc_windspeed_default_def calc_windspeed_def
      find_level_index_def set_sensitivity_def default_sensitivity_def select_grid_def getitem_def
      windspeed_grid_def same_shape_def magnitude_row_def shiftgrid_def shift_index_def
      rotate_columns_def sqrt_25 sqrt_100 sqrt_169 create_map_def render_def JetStreamMap_init_def
      figname_of_def string_of_int_def string_of_nat.simps upt_rec)
  finally show ?thesis .
qed

theorem main_saves_one_image_per_timestep_witness:
  "unpack_area (to_float sample_env) (split_on CHR '','' (area sample_args))
     = Inr (- 180, 180, - 70, 74)
   \<and> open_dataset sample_env (datafile sample_args) = Inr sample_dataset
   \<and> \<not> listlevels sample_args
   \<and> Map.empty (outdir sample_args) \<noteq> Some File
   \<and> wf_dataset sample_dataset \<and> level sample_args \<in> set (nc_level sample_dataset)
   \<and> (\<exists>k figs. k \<le> length (nc_time sample_dataset) \<and> length figs = k
      \<and> events (main sample_env sample_args Map.empty)
          = (if (Map.empty :: filesystem) (outdir sample_args) = None
             then [Mkdir (outdir sample_args)] else [])
            @ concat (map (\<lambda>(t, f).
                [SaveFig (outdir sample_args @ ''/'' @ timestr_of sample_env sample_dataset t
                            @ ''-'' @ string_of_int (level sample_args) @ ''.png'')
                   (dpi sample_args) f,
                 Print (outdir sample_args @ ''/'' @ timestr_of sample_env sample_dataset t
                          @ ''-'' @ string_of_int (level sample_args) @ ''.png'')])
              (zip (take k (nc_time sample_dataset)) figs))
      \<and> (ending (main sample_env sample_args Map.empty) = Exit 0
            \<longleftrightarrow> k = length (nc_time sample_dataset))
      \<and> (wf_dataset sample_dataset \<and> level sample_args \<in> set (nc_level sample_dataset)
            \<longrightarrow> k = length (nc_time sample_dataset)))
   \<and> map (\<lambda>e. case e of SaveFig n r f \<Rightarrow> ''save '' @ n | Print n \<Rightarrow> ''print '' @ n
                          | Mkdir n \<Rightarrow> ''mkdir '' @ n)
         (events (main sample_env sample_args Map.empty))
       = [''mkdir maps'', ''save maps/2014-01-30-250.png'', ''print maps/2014-01-30-250.png'',
          ''save maps/2014-01-31-250.png'', ''print maps/2014-01-31-250.png'']"
proof -
  have nl: "\<not> listlevels sample_args" by (simp add: sample_args_def)
  have nf: "Map.empty (outdir sample_args) \<noteq> Some File" by simp
  have lv: "level sample_args \<in> set (nc_level sample_dataset)"
    by (simp add: sample_args_def sample_dataset_def)
  have tr: "map (\<lambda>e. case e of SaveFig n r f \<Rightarrow> ''save '' @ n | Print n \<Rightarrow> ''print '' @ n
                          | Mkdir n \<Rightarrow> ''mkdir '' @ n)
         (events (main sample_env sample_args Map.empty))
       = [''mkdir maps'', ''save maps/2014-01-30-250.png'', ''print maps/2014-01-30-250.png'',
          ''save maps/2014-01-31-250.png'', ''print maps/2014-01-31-250.png'']"
    by (simp add: sample_main)
  note t = main_saves_one_image_per_timestep
    [where fs = Map.empty, OF sample_box sample_open nl nf]
  show ?thesis
    apply (intro conjI)
           apply (rule sample_box)
          apply (rule sample_open)
         apply (rule nl)
        apply (rule nf)
       apply (rule sample_dataset_wf)
      apply (rule lv)
     apply (rule t)
    apply (rule tr)
    done
qed

text \<open>
  C8: for a run whose area and data file are read,
  \<^item> listing the levels prints them and exits with status 0, touching nothing;
  \<^item> otherwise, an output path that is a file is reported and the run exits with status
    1, having printed only that report: no directory made, no time step processed, no
    figure saved;
  \<^item> otherwise, an output path that does not exist is created as a directory first, and
    one that is a directory is left as it is;
  \<^item> and a run on a well-formed dataset that has the requested level completes and exits
    with status 0.
\<close>

theorem main_exit_codes:
  assumes box: "unpack_area (to_float ev) (split_on CHR '','' (area a)) = Inr box"
    and d: "open_dataset ev (datafile a) = Inr d"
  shows "(listlevels a \<longrightarrow>
            ending (main ev a fs) = Exit 0 \<and> exit_code (ending (main ev a fs)) = 0
          \<and> files (main ev a fs) = fs
          \<and> events (main ev a fs)
              = Print (''Levels available in dataset '' @ datafile a @ '':'')
                # map (\<lambda>l. Print (''    '' @ string_of_int l)) (nc_level d))
       \<and> (\<not> listlevels a \<and> fs (outdir a) = Some File \<longrightarrow>
            ending (main ev a fs) = Exit 1 \<and> exit_code (ending (main ev a fs)) = 1
          \<and> files (main ev a fs) = fs
          \<and> events (main ev a fs)
              = [Print (''Can't create dir '' @ outdir a @ '': there's a file by that name'')])
       \<and> (\<not> listlevels a \<and> fs (outdir a) = None \<longrightarrow>
            files (main ev a fs) = fs(outdir a \<mapsto> Dir)
          \<and> (\<exists>evs. events (main ev a fs) = Mkdir (outdir a) # evs))
       \<and> (\<not> listlevels a \<and> fs (outdir a) = Some Dir \<longrightarrow> files (main ev a fs) = fs)
       \<and> (\<not> listlevels a \<and> fs (outdir a) \<noteq> Some File \<and> wf_dataset d
            \<and> level a \<in> set (nc_level d) \<longrightarrow>
            ending (main ev a fs) = Exit 0 \<and> exit_code (ending (main ev a fs)) = 0)"
proof (intro conjI impI)
  assume "listlevels a"
  note m = main_listing [OF box d this, of fs]
  show "ending (main ev a fs) = Exit 0" "exit_code (ending (main ev a fs)) = 0"
    "files (main ev a fs) = fs"
    "events (main ev a fs)
              = Print (''Levels available in dataset '' @ datafile a @ '':'')
                # map (\<lambda>l. Print (''    '' @ string_of_int l)) (nc_level d)"
    by (simp_all add: m)
next
  assume "\<not> listlevels a \<and> fs (outdir a) = Some File"
  then have "\<not> listlevels a" "fs (outdir a) = Some File" by simp_all
  note m = main_conflict [where fs = fs, OF box d this]
  show "ending (main ev a fs) = Exit 1" "exit_code (ending (main ev a fs)) = 1"
    "files (main ev a fs) = fs"
    "events (main ev a fs)
              = [Print (''Can't create dir '' @ outdir a @ '': there's a file by that name'')]"
    by (simp_all add: m)
next
  assume h: "\<not> listlevels a \<and> fs (outdir a) = None"
  then have nl: "\<not> listlevels a" and nf: "fs (outdir a) \<noteq> Some File" by simp_all
  note m = main_processes [where fs = fs, OF box d nl nf]
  show "files (main ev a fs) = fs(outdir a \<mapsto> Dir)"
    using h by (simp add: m process_times_def split_beta)
  show "\<exists>evs. events (main ev a fs) = Mkdir (outdir a) # evs"
    using h by (simp add: m process_times_def split_beta)
next
  assume h: "\<not> listlevels a \<and> fs (outdir a) = Some Dir"
  then have nl: "\<not> listlevels a" and nf: "fs (outdir a) \<noteq> Some File" by simp_all
  note m = main_processes [where fs = fs, OF box d nl nf]
  show "files (main ev a fs) = fs"
    using h by (simp add: m process_times_def split_beta)
next
  assume h: "\<not> listlevels a \<and> fs (outdir a) \<noteq> Some File \<and> wf_dataset d
            \<and> level a \<in> set (nc_level d)"
  then have nl: "\<not> listlevels a" and nf: "fs (outdir a) \<noteq> Some File" by simp_all
  note m = main_processes [where fs = fs, OF box d nl nf]
  have dd: "data (ERAJetStreamData_init d) = d" by (simp add: ERAJetStreamData_init_def)
  from process_times_trace [OF dd, of ev a box
      "if fs (outdir a) = None then [Mkdir (outdir a)] else []"
      "if fs (outdir a) = None then fs(outdir a \<mapsto> Dir) else fs"]
  obtain k where
    "ending (process_times ev a box (ERAJetStreamData_init d)
               (if fs (outdir a) = None then [Mkdir (outdir a)] else [])
               (if fs (outdir a) = None then fs(outdir a \<mapsto> Dir) else fs)) = Exit 0
       \<longleftrightarrow> k = length (nc_time d)"
    "wf_dataset d \<and> level a \<in> set (nc_level d) \<longrightarrow> k = length (nc_time d)"
    by blast
  with h show e: "ending (main ev a fs) = Exit 0" unfolding m by simp
  then show "exit_code (ending (main ev a fs)) = 0" by simp
qed

theorem main_exit_codes_witness:
  "unpack_area (to_float sample_env) (split_on CHR '','' (area sample_args))
     = Inr (- 180, 180, - 70, 74)
   \<and> open_dataset sample_env (datafile sample_args) = Inr sample_dataset
   \<and> listlevels (sample_args\<lparr>listlevels := True\<rparr>)
   \<and> main sample_env (sample_args\<lparr>listlevels := True\<rparr>) [''maps'' \<mapsto> File]
       = \<lparr>events = [Print ''Levels available in dataset era.nc:'', Print ''    1000'',
                     Print ''    850'', Print ''    250''],
          files = [''maps'' \<mapsto> File], ending = Exit 0\<rparr>
   \<and> \<not> listlevels sample_args
   \<and> [''maps'' \<mapsto> File] (outdir sample_args) = Some File
   \<and> main sample_env sample_args [''maps'' \<mapsto> File]
       = \<lparr>events = [Print ''Can't create dir maps: there's a file by that name''],
          files = [''maps'' \<mapsto> File], ending = Exit 1\<rparr>
   \<and> exit_code (ending (main sample_env sample_args [''maps'' \<mapsto> File])) = 1
   \<and> (Map.empty :: filesystem) (outdir sample_args) = None
   \<and> files (main sample_env sample_args Map.empty) = [''maps'' \<mapsto> Dir]
   \<and> (\<exists>evs. events (main sample_env sample_args Map.empty) = Mkdir ''maps'' # evs)
   \<and> [''maps'' \<mapsto> Dir] (outdir sample_args) = Some Dir
   \<and> files (main sample_env sample_args [''maps'' \<mapsto> Dir]) = [''maps'' \<mapsto> Dir]
   \<and> wf_dataset sample_dataset \<and> level sample_args \<in> set (nc_level sample_dataset)
   \<and> ending (main sample_env sample_args [''maps'' \<mapsto> Dir]) = Exit 0
   \<and> exit_code (ending (main sample_env sample_args Map.empty)) = 0"
proof -
  let ?L = "sample_args\<lparr>listlevels := True\<rparr>"
  have nl: "\<not> listlevels sample_args" by (simp add: sample_args_def)
  have out: "outdir sample_args = ''maps''" by (simp add: sample_args_def)
  have lv: "level sample_args \<in> set (nc_level sample_dataset)"
    by (simp add: sample_args_def sample_dataset_def)
  have boxL: "unpack_area (to_float sample_env) (split_on CHR '','' (area ?L))
                = Inr (- 180, 180, - 70, 74)"
    using sample_box by simp
  have openL: "open_dataset sample_env (datafile ?L) = Inr sample_dataset"
    using sample_open by simp
  have l: "listlevels ?L" by simp
  have fileL: "datafile ?L = ''era.nc''" by (simp add: sample_args_def)
  have levels: "nc_level sample_dataset = [1000, 850, 250]" by (simp add: sample_dataset_def)
  have strs: "string_of_int 1000 = ''1000''" "string_of_int 850 = ''850''"
    "string_of_int 250 = ''250''"
    by (simp_all add: string_of_int_def string_of_nat.simps)
  note t1 = main_exit_codes [where fs = "[''maps'' \<mapsto> File]", OF boxL openL]
  note t2 = main_exit_codes [where fs = "[''maps'' \<mapsto> File]", OF sample_box sample_open]
  note t3 = main_exit_codes [where fs = Map.empty, OF sample_box sample_open]
  note t4 = main_exit_codes [where fs = "[''maps'' \<mapsto> Dir]", OF sample_box sample_open]
  have c1: "main sample_env ?L [''maps'' \<mapsto> File]
       = \<lparr>events = [Print ''Levels available in dataset era.nc:'', Print ''    1000'',
                     Print ''    850'', Print ''    250''],
          files = [''maps'' \<mapsto> File], ending = Exit 0\<rparr>"
    using t1 l by (simp add: fileL levels strs run.equality)
  have f2: "[''maps'' \<mapsto> File] (outdir sample_args) = Some File" by (simp add: out)
  have c2: "main sample_env sample_args [''maps'' \<mapsto> File]
       = \<lparr>events = [Print ''Can't create dir maps: there's a file by that name''],
          files = [''maps'' \<mapsto> File], ending = Exit 1\<rparr>"
    using t2 nl f2 by (simp add: out run.equality)
  have c2': "exit_code (ending (main sample_env sample_args [''maps'' \<mapsto> File])) = 1"
    using t2 nl f2 by simp
  have f3: "(Map.empty :: filesystem) (outdir sample_args) = None" by simp
  have c3: "files (main sample_env sample_args Map.empty) = [''maps'' \<mapsto> Dir]"
    "\<exists>evs. events (main sample_env sample_args Map.empty) = Mkdir ''maps'' # evs"
    "exit_code (ending (main sample_env sample_args Map.empty)) = 0"
    using t3 nl sample_dataset_wf lv by (simp_all add: out)
  have f4: "[''maps'' \<mapsto> Dir] (outdir sample_args) = Some Dir" by (simp add: out)
  have c4: "files (main sample_env sample_args [''maps'' \<mapsto> Dir]) = [''maps'' \<mapsto> Dir]"
    "ending (main sample_env sample_args [''maps'' \<mapsto> Dir]) = Exit 0"
    using t4 nl f4 sample_dataset_wf lv by simp_all
  show ?thesis
    using sample_box sample_open l c1 nl f2 c2 c2' f3 c3 f4 c4 sample_dataset_wf lv
    by (intro conjI)
qed

end
